theory Spec2Isabelle
  imports Main
begin

section \<open>Data model\<close>

text \<open>
  The harness of \<^verbatim>\<open>refactor_config.go\<close> drives a configuration store through its
  interface and reports to a \<^verbatim>\<open>*testing.T\<close>. The types it imports are declared outside
  the file; they are given here with the fields the file reads and writes. Calls of
  \<^verbatim>\<open>log.Info\<close> only print a progress line and are left out.
\<close>

record GroupVersionKind =
  Group :: string
  Version :: string
  Kind :: string

text \<open>The zero value of a Go struct of strings.\<close>

definition zeroGvk :: GroupVersionKind where
  "zeroGvk = \<lparr>Group = [], Version = [], Kind = []\<rparr>"

text \<open>
  \<^verbatim>\<open>time.Time\<close>: the three fields that \<^verbatim>\<open>reflect.DeepEqual\<close> walks through;
  \<^verbatim>\<open>time.Time{}\<close> is the value with all of them zero.
\<close>

record Time =
  wall :: nat
  ext :: int
  loc :: "string option"

definition zeroTime :: Time where
  "zeroTime = \<lparr>wall = 0, ext = 0, loc = None\<rparr>"

text \<open>
  \<^verbatim>\<open>config.ConfigPair\<close> and \<^verbatim>\<open>config.MockConfig\<close>. A Go slice or map is \<open>None\<close> when
  it is nil, which \<^verbatim>\<open>reflect.DeepEqual\<close> tells apart from an empty one. The fields of
  the pair are named \<open>PKey\<close> and \<open>PValue\<close> since \<open>Key\<close> is the field of the mock
  configuration.
\<close>

record ConfigPair =
  PKey :: string
  PValue :: string

record MockConfig =
  Key :: string
  Pairs :: "ConfigPair list option"

text \<open>
  \<^verbatim>\<open>config.Spec\<close> is an interface value: nil, a pointer to a mock configuration, or a
  pointer to one of the five example payloads, which are fixed global values that the
  harness hands to the store without looking inside.
\<close>

datatype Spec =
    NilSpec
  | MockConfigPtr MockConfig
  | ExampleVirtualService
  | ExampleServiceEntry
  | ExampleGateway
  | ExampleDestinationRule
  | ExampleAuthorizationPolicy

text \<open>
  Modelled from the spec: the declaration of \<^verbatim>\<open>config.Meta\<close> and \<^verbatim>\<open>config.Config\<close> is
  not part of the file. The fields are those of the specification's data model (kind,
  name, namespace, labels, annotations, version, creation time, payload), under the
  names the file uses for them. \<^verbatim>\<open>Config\<close> embeds \<^verbatim>\<open>Meta\<close>.

  The file names no other field, and the declaration may have more. Such fields are
  the extension part of the record, \<open>Config.more\<close>, of a type that is left open: a
  composite literal leaves them at their zero value. In the resources of type
  \<open>Config\<close>, which the harness builds and the store hands back, this part is empty.
\<close>

record Meta =
  GroupVersionKind :: GroupVersionKind
  Name :: string
  Namespace :: string
  Labels :: "(string \<rightharpoonup> string) option"
  Annotations :: "(string \<rightharpoonup> string) option"
  ResourceVersion :: string
  CreationTimestamp :: Time

record Config = Meta +
  Spec :: Spec

text \<open>\<^verbatim>\<open>config2.Config{}\<close>\<close>

definition zeroConfig :: Config where
  "zeroConfig = \<lparr>GroupVersionKind = zeroGvk, Name = [], Namespace = [], Labels = None,
     Annotations = None, ResourceVersion = [], CreationTimestamp = zeroTime,
     Spec = NilSpec\<rparr>"

text \<open>
  \<^verbatim>\<open>resource.Schema\<close>, with the two methods the harness calls, and the schemas of
  package \<^verbatim>\<open>collections\<close> that the file names. Their values are declared outside the
  file: every definition below takes them as the parameter \<open>E\<close>.
\<close>

record Schema =
  schemaGvk :: GroupVersionKind
  IsClusterScoped :: bool

record Collections =
  Mock :: Schema
  VirtualService :: Schema
  DestinationRule :: Schema
  ServiceEntry :: Schema
  Gateway :: Schema
  AuthorizationPolicy :: Schema

text \<open>\<^verbatim>\<open>mockGvk = collections.Mock.GroupVersionKind()\<close>\<close>

definition mockGvk :: "Collections \<Rightarrow> GroupVersionKind" where
  "mockGvk E = schemaGvk (Mock E)"

section \<open>Decimal formatting\<close>

text \<open>
  \<^verbatim>\<open>strconv.Itoa(i)\<close> and the verb \<^verbatim>\<open>%d\<close> of \<^verbatim>\<open>fmt.Sprintf\<close> print an integer in
  base ten, with a leading minus sign when it is negative.
\<close>

definition digit :: "nat \<Rightarrow> char" where
  "digit d = ''0123456789'' ! d"

fun utoa :: "nat \<Rightarrow> string" where
  "utoa n = (if n < 10 then [digit n] else utoa (n div 10) @ [digit (n mod 10)])"

declare utoa.simps [simp del]

definition itoa :: "int \<Rightarrow> string" where
  "itoa i = (if i < 0 then CHR ''-'' # utoa (nat (- i)) else utoa (nat i))"

text \<open>Reading a decimal numeral back, to state what \<open>itoa\<close> encodes.\<close>

definition digit_val :: "char \<Rightarrow> nat" where
  "digit_val c = of_char c - 48"

definition utoa_val :: "string \<Rightarrow> nat" where
  "utoa_val s = foldl (\<lambda>acc c. 10 * acc + digit_val c) 0 s"

definition atoi :: "string \<Rightarrow> int" where
  "atoi s = (case s of
      [] \<Rightarrow> 0
    | c # r \<Rightarrow> if c = CHR ''-'' then - int (utoa_val r) else int (utoa_val s))"

section \<open>Fixtures\<close>

text \<open>
  \<^verbatim>\<open>func Make(namespace string, i int) config2.Config\<close>. The fields the composite
  literal does not mention keep their zero value.
\<close>

definition Make :: "Collections \<Rightarrow> string \<Rightarrow> int \<Rightarrow> Config" where
  "Make E namespace i =
     (let name = ''mock-config'' @ itoa i in
      \<lparr>GroupVersionKind = mockGvk E,
       Name = name,
       Namespace = namespace,
       Labels = Some [''key'' \<mapsto> name],
       Annotations = Some [''annotationkey'' \<mapsto> name],
       ResourceVersion = [],
       CreationTimestamp = zeroTime,
       Spec = MockConfigPtr
         \<lparr>Key = name, Pairs = Some [\<lparr>PKey = ''key'', PValue = itoa i\<rparr>]\<rparr>\<rparr>)"

text \<open>
  \<^verbatim>\<open>func Compare(a, b config2.Config) bool\<close>. Both arguments are copies, so the two
  assignments change nothing for the caller. \<^verbatim>\<open>reflect.DeepEqual\<close> on two structs
  is equality field by field, over every field the struct has: the function is defined
  on resources with any extension part, which takes part in the comparison. The payload
  behind \<open>Spec\<close> is compared as a whole; the model holds the fields of it that the
  file sets.
\<close>

definition Compare :: "'a Config_scheme \<Rightarrow> 'a Config_scheme \<Rightarrow> bool" where
  "Compare a b =
     (let a1 = a\<lparr>ResourceVersion := []\<rparr>;
          b1 = b\<lparr>ResourceVersion := []\<rparr>;
          a2 = a1\<lparr>CreationTimestamp := zeroTime\<rparr>;
          b2 = b1\<lparr>CreationTimestamp := zeroTime\<rparr>
      in a2 = b2)"

text \<open>
  \<^verbatim>\<open>func createConfigs(namespace string, n int) map[int]config2.Config\<close>. The loop
  counter stays below \<open>n\<close>, so it never leaves the range of a Go \<^verbatim>\<open>int\<close>.
\<close>

function createConfigs_loop ::
  "Collections \<Rightarrow> string \<Rightarrow> int \<Rightarrow> int \<Rightarrow> (int \<rightharpoonup> Config) \<Rightarrow> (int \<rightharpoonup> Config)" where
  "createConfigs_loop E namespace n i elts =
     (if i < n
      then createConfigs_loop E namespace n (i + 1) (elts(i \<mapsto> Make E namespace i))
      else elts)"
  by pat_completeness auto
termination
  by (relation "measure (\<lambda>(E, namespace, n, i, elts). nat (n - i))") auto

declare createConfigs_loop.simps [simp del]

definition createConfigs :: "Collections \<Rightarrow> string \<Rightarrow> int \<Rightarrow> (int \<rightharpoonup> Config)" where
  "createConfigs E namespace n = createConfigs_loop E namespace n 0 Map.empty"

section \<open>The store and the test log\<close>

text \<open>
  A Go \<^verbatim>\<open>error\<close> is \<open>None\<close> when it is nil and carries its message otherwise.
\<close>

type_synonym error = string

text \<open>
  What the harness reports to \<^verbatim>\<open>*testing.T\<close>, one constructor per shape of call:
  \<^verbatim>\<open>t.Error(err)\<close>, \<^verbatim>\<open>t.Error\<close> or \<^verbatim>\<open>t.Errorf\<close> with a fixed text,
  \<^verbatim>\<open>t.Errorf("wanted %v, got %v", elt, v1)\<close>,
  \<^verbatim>\<open>t.Errorf("wanted 0 element(s), got %d in %v", len(l), l)\<close> and \<^verbatim>\<open>t.Fatal\<close>.
  The state of a test is the list of its reports, oldest first.
\<close>

datatype failure =
    Error_err error
  | Error_msg string
  | Errorf_wanted Config "Config option"
  | Errorf_wanted0 nat "Config list"
  | Fatal_msg string

type_synonym T = "failure list"

text \<open>
  \<^verbatim>\<open>t.Error\<close> records a failure and returns; \<^verbatim>\<open>t.Fatal\<close> records it and stops the
  test function, so that nothing after it runs.
\<close>

datatype 'a run = Done 'a | FailNow 'a

text \<open>
  Modelled from the spec: the interface \<^verbatim>\<open>model.ConfigStore\<close> is declared outside the
  file. Its operations are those of the specification's table of the store contract,
  with the arguments the file passes. The store is any implementation: each operation
  reads a state of the store and returns the new one with its result.
  \<open>Schemas\<close> stands for \<^verbatim>\<open>r.Schemas().FindByGroupVersionKind\<close>, which answers with a
  schema and a flag.
\<close>

record 's ConfigStore =
  Schemas :: "'s \<Rightarrow> GroupVersionKind \<Rightarrow> Schema option"
  Get :: "GroupVersionKind \<Rightarrow> string \<Rightarrow> string \<Rightarrow> 's \<Rightarrow> Config option \<times> 's"
  List :: "GroupVersionKind \<Rightarrow> string \<Rightarrow> 's \<Rightarrow> Config list \<times> 's"
  Create :: "Config \<Rightarrow> 's \<Rightarrow> (Config \<times> error option) \<times> 's"
  Update :: "Config \<Rightarrow> 's \<Rightarrow> (Config \<times> error option) \<times> 's"
  Delete :: "GroupVersionKind \<Rightarrow> string \<Rightarrow> string \<Rightarrow> string option \<Rightarrow> 's
    \<Rightarrow> error option \<times> 's"

text \<open>
  \<^verbatim>\<open>for i, elt := range elts\<close> visits the entries of a Go map in an order the runtime
  chooses. The order of the keys is an argument \<open>ks\<close> of every function with such a
  loop; \<open>range_order\<close> says that \<open>ks\<close> lists every key once.
\<close>

definition range_entries :: "(int \<rightharpoonup> Config) \<Rightarrow> int list \<Rightarrow> (int \<times> Config) list" where
  "range_entries elts ks = List.map_filter (\<lambda>k. map_option (Pair k) (elts k)) ks"

definition range_order :: "(int \<rightharpoonup> Config) \<Rightarrow> int list \<Rightarrow> bool" where
  "range_order elts ks = (distinct ks \<and> set ks = dom elts)"

section \<open>The harness\<close>

text \<open>\<^verbatim>\<open>func verifyConfigTypes(r model.ConfigStore, t *testing.T)\<close>\<close>

definition verifyConfigTypes ::
  "Collections \<Rightarrow> 's ConfigStore \<Rightarrow> 's \<times> T \<Rightarrow> ('s \<times> T) run" where
  "verifyConfigTypes E r st =
     (case st of (s, t) \<Rightarrow>
        (case Schemas r s (mockGvk E) of
           None \<Rightarrow> FailNow (s, t @ [Fatal_msg ''expected config mock types''])
         | Some sch \<Rightarrow> Done (s, t)))"

text \<open>\<^verbatim>\<open>func createConfigsInStore(r, t, elts)\<close>: the value \<^verbatim>\<open>Create\<close> returns is dropped.\<close>

fun createConfigsInStore_loop ::
  "'s ConfigStore \<Rightarrow> (int \<times> Config) list \<Rightarrow> 's \<times> T \<Rightarrow> 's \<times> T" where
  "createConfigsInStore_loop r [] st = st"
| "createConfigsInStore_loop r ((i, elt) # es) (s, t) =
     (let ((stored, err), s') = Create r elt s;
          t' = (case err of Some e \<Rightarrow> t @ [Error_err e] | None \<Rightarrow> t)
      in createConfigsInStore_loop r es (s', t'))"

definition createConfigsInStore ::
  "'s ConfigStore \<Rightarrow> (int \<rightharpoonup> Config) \<Rightarrow> int list \<Rightarrow> 's \<times> T \<Rightarrow> 's \<times> T" where
  "createConfigsInStore r elts ks st = createConfigsInStore_loop r (range_entries elts ks) st"

text \<open>
  \<^verbatim>\<open>func verifyConfigsInStore(r, t, elts)\<close>. The map \<^verbatim>\<open>revs\<close> is a local variable: the
  loop fills it, and the function returns without passing it on.
\<close>

fun verifyConfigsInStore_loop ::
  "Collections \<Rightarrow> 's ConfigStore \<Rightarrow> (int \<times> Config) list \<Rightarrow> ('s \<times> T) \<times> (int \<rightharpoonup> string)
    \<Rightarrow> ('s \<times> T) \<times> (int \<rightharpoonup> string)" where
  "verifyConfigsInStore_loop E r [] st = st"
| "verifyConfigsInStore_loop E r ((i, elt) # es) ((s, t), revs) =
     (let (v1, s') = Get r (mockGvk E) (Name elt) (Namespace elt) s
      in if v1 = None \<or> \<not> Compare elt (the v1)
         then verifyConfigsInStore_loop E r es ((s', t @ [Errorf_wanted elt v1]), revs)
         else verifyConfigsInStore_loop E r es
                ((s', t), revs(i \<mapsto> ResourceVersion (the v1))))"

definition verifyConfigsInStore ::
  "Collections \<Rightarrow> 's ConfigStore \<Rightarrow> (int \<rightharpoonup> Config) \<Rightarrow> int list \<Rightarrow> 's \<times> T \<Rightarrow> 's \<times> T" where
  "verifyConfigsInStore E r elts ks st =
     fst (verifyConfigsInStore_loop E r (range_entries elts ks) (st, Map.empty))"

text \<open>\<^verbatim>\<open>func getFirstRevision(elts) string\<close>: the first entry the loop meets, if any.\<close>

definition getFirstRevision :: "(int \<rightharpoonup> Config) \<Rightarrow> int list \<Rightarrow> string" where
  "getFirstRevision elts ks =
     (case range_entries elts ks of
        [] \<Rightarrow> []
      | (i, elt) # es \<Rightarrow> ResourceVersion elt)"

text \<open>\<^verbatim>\<open>func assertError(t, r, cfg)\<close>\<close>

definition assertError :: "'s ConfigStore \<Rightarrow> Config \<Rightarrow> 's \<times> T \<Rightarrow> 's \<times> T" where
  "assertError r cfg st =
     (case st of (s, t) \<Rightarrow>
        (let ((c1, err1), s1) = Create r cfg s;
             t1 = (if err1 = None
                   then t @ [Error_msg ''expected error posting invalid object''] else t);
             ((c2, err2), s2) = Update r cfg s1;
             t2 = (if err2 = None
                   then t1 @ [Error_msg ''expected error updating invalid object''] else t1)
         in (s2, t2)))"

text \<open>\<^verbatim>\<open>func verifyMissingElements(r, t)\<close>\<close>

definition verifyMissingElements :: "Collections \<Rightarrow> 's ConfigStore \<Rightarrow> 's \<times> T \<Rightarrow> 's \<times> T" where
  "verifyMissingElements E r st =
     (case st of (s, t) \<Rightarrow>
        (let (l, s1) = List r (mockGvk E) [] s;
             t1 = (if length l > 0
                   then t @ [Error_msg ''unexpected objects for missing type''] else t);
             (cfg, s2) = Get r (mockGvk E) ''missing'' [] s1;
             t2 = (if cfg \<noteq> None
                   then t1 @ [Error_msg ''unexpected configuration object found''] else t1)
         in (s2, t2)))"

text \<open>
  The two resources that \<^verbatim>\<open>verifyErrorsOnInvalidOperations\<close> builds, as functions of
  the version they are given.
\<close>

definition invalid :: "Collections \<Rightarrow> string \<Rightarrow> Config" where
  "invalid E rv =
     \<lparr>GroupVersionKind = mockGvk E, Name = ''invalid'', Namespace = [], Labels = None,
      Annotations = None, ResourceVersion = rv, CreationTimestamp = zeroTime,
      Spec = MockConfigPtr \<lparr>Key = [], Pairs = None\<rparr>\<rparr>"

definition missing :: "Collections \<Rightarrow> string \<Rightarrow> Config" where
  "missing E rv =
     \<lparr>GroupVersionKind = mockGvk E, Name = ''missing'', Namespace = [], Labels = None,
      Annotations = None, ResourceVersion = rv, CreationTimestamp = zeroTime,
      Spec = MockConfigPtr \<lparr>Key = ''missing'', Pairs = None\<rparr>\<rparr>"

text \<open>
  \<^verbatim>\<open>func verifyErrorsOnInvalidOperations(r, t, elts)\<close>; \<open>ks1\<close> and \<open>ks2\<close> are the
  orders of the two calls of \<^verbatim>\<open>getFirstRevision\<close>.
\<close>

definition verifyErrorsOnInvalidOperations ::
  "Collections \<Rightarrow> 's ConfigStore \<Rightarrow> (int \<rightharpoonup> Config) \<Rightarrow> int list \<Rightarrow> int list \<Rightarrow> 's \<times> T
    \<Rightarrow> 's \<times> T" where
  "verifyErrorsOnInvalidOperations E r elts ks1 ks2 st =
     (let invalid_cfg = invalid E (getFirstRevision elts ks1);
          missing_cfg = missing E (getFirstRevision elts ks2);
          st1 = assertError r zeroConfig st;
          st2 = assertError r invalid_cfg st1;
          st3 = assertError r missing_cfg st2
      in verifyMissingElements E r st3)"

text \<open>\<^verbatim>\<open>func deleteConfigsFromStore(r, t, namespace, n)\<close>\<close>

function deleteConfigsFromStore_loop ::
  "Collections \<Rightarrow> 's ConfigStore \<Rightarrow> string \<Rightarrow> int \<Rightarrow> int \<Rightarrow> 's \<times> T \<Rightarrow> 's \<times> T" where
  "deleteConfigsFromStore_loop E r namespace n i (s, t) =
     (if i < n
      then (let (err, s') = Delete r (mockGvk E) (Name (Make E namespace i)) namespace None s;
                t' = (case err of Some e \<Rightarrow> t @ [Error_err e] | None \<Rightarrow> t)
            in deleteConfigsFromStore_loop E r namespace n (i + 1) (s', t'))
      else (s, t))"
  by pat_completeness auto
termination
  by (relation "measure (\<lambda>(E, r, namespace, n, i, st). nat (n - i))") auto

declare deleteConfigsFromStore_loop.simps [simp del]

definition deleteConfigsFromStore ::
  "Collections \<Rightarrow> 's ConfigStore \<Rightarrow> string \<Rightarrow> int \<Rightarrow> 's \<times> T \<Rightarrow> 's \<times> T" where
  "deleteConfigsFromStore E r namespace n st =
     (let (s1, t1) = deleteConfigsFromStore_loop E r namespace n 0 st;
          (l, s2) = List r (mockGvk E) namespace s1;
          t2 = (if length l \<noteq> 0 then t1 @ [Errorf_wanted0 (length l) l] else t1)
      in (s2, t2))"

text \<open>
  \<^verbatim>\<open>func CheckMapInvariant(r, t, namespace, n)\<close>. The four loops over the map of
  fixtures each get their own order.
\<close>

record RangeOrders =
  createOrder :: "int list"
  verifyOrder :: "int list"
  invalidOrder :: "int list"
  missingOrder :: "int list"

definition CheckMapInvariant ::
  "Collections \<Rightarrow> 's ConfigStore \<Rightarrow> string \<Rightarrow> int \<Rightarrow> RangeOrders \<Rightarrow> 's \<times> T
    \<Rightarrow> ('s \<times> T) run" where
  "CheckMapInvariant E r namespace n ord st =
     (case verifyConfigTypes E r st of
        FailNow st' \<Rightarrow> FailNow st'
      | Done st0 \<Rightarrow>
          (let elts = createConfigs E namespace n;
               st1 = createConfigsInStore r elts (createOrder ord) st0;
               st2 = verifyConfigsInStore E r elts (verifyOrder ord) st1;
               st3 = verifyErrorsOnInvalidOperations E r elts
                       (invalidOrder ord) (missingOrder ord) st2;
               st4 = deleteConfigsFromStore E r namespace n st3
           in Done st4))"

text \<open>
  \<^verbatim>\<open>func CheckIstioConfigTypes(store, namespace, t)\<close>. An entry of \<^verbatim>\<open>cases\<close> is its
  name, the name of the resource, the schema and the payload. \<^verbatim>\<open>t.Run\<close> gives the
  body a test of its own, which \<open>subtest\<close> returns; the body only calls \<^verbatim>\<open>t.Error\<close>.
\<close>

type_synonym testcase = "string \<times> string \<times> Schema \<times> Spec"

definition cases :: "Collections \<Rightarrow> testcase list" where
  "cases E =
     (let configName = ''example'' in
      [(''VirtualService'', configName, VirtualService E, ExampleVirtualService),
       (''DestinationRule'', configName, DestinationRule E, ExampleDestinationRule),
       (''ServiceEntry'', configName, ServiceEntry E, ExampleServiceEntry),
       (''Gateway'', configName, Gateway E, ExampleGateway),
       (''AuthorizationPolicy'', configName, AuthorizationPolicy E,
          ExampleAuthorizationPolicy)])"

definition subtest :: "'s ConfigStore \<Rightarrow> string \<Rightarrow> testcase \<Rightarrow> 's \<Rightarrow> 's \<times> T" where
  "subtest store namespace c s =
     (case c of (name, configName, schema, spec) \<Rightarrow>
        (let configMeta = \<lparr>GroupVersionKind = schemaGvk schema, Name = configName,
               Namespace = [], Labels = None, Annotations = None, ResourceVersion = [],
               CreationTimestamp = zeroTime\<rparr>;
             configMeta = (if \<not> IsClusterScoped schema
                           then configMeta\<lparr>Namespace := namespace\<rparr> else configMeta);
             cfg = Meta.extend configMeta (Config.fields spec);
             ((c1, err), s1) = Create store cfg s;
             t1 = (case err of Some e \<Rightarrow> [Error_err e] | None \<Rightarrow> []);
             (configs, s2) = List store (schemaGvk schema) namespace s1;
             t2 = (if length configs = 0
                   then t1 @ [Error_msg ''expected non-zero number of configs''] else t1);
             (storedConfig, s3) = Get store (schemaGvk schema) configName namespace s2;
             t3 = (if storedConfig = None
                   then t2 @ [Error_msg ''expected to find stored config''] else t2)
         in (s3, t3)))"

fun CheckIstioConfigTypes_loop ::
  "'s ConfigStore \<Rightarrow> string \<Rightarrow> testcase list \<Rightarrow> 's \<times> (string \<times> T) list
    \<Rightarrow> 's \<times> (string \<times> T) list" where
  "CheckIstioConfigTypes_loop store namespace [] st = st"
| "CheckIstioConfigTypes_loop store namespace (c # cs) (s, results) =
     (let (s', t') = subtest store namespace c s
      in CheckIstioConfigTypes_loop store namespace cs (s', results @ [(fst c, t')]))"

definition CheckIstioConfigTypes ::
  "Collections \<Rightarrow> 's ConfigStore \<Rightarrow> string \<Rightarrow> 's \<Rightarrow> 's \<times> (string \<times> T) list" where
  "CheckIstioConfigTypes E store namespace s =
     CheckIstioConfigTypes_loop store namespace (cases E) (s, [])"

section \<open>Observing the calls of the harness\<close>

text \<open>
  To say which operations the harness invokes, with which arguments and in which order,
  a store is wrapped so that it also writes down every call with its reply. The
  wrapped store answers as the store inside does.
\<close>

datatype call =
    Get_call GroupVersionKind string string
  | List_call GroupVersionKind string
  | Create_call Config
  | Update_call Config
  | Delete_call GroupVersionKind string string "string option"

datatype reply =
    Got "Config option"
  | Listed "Config list"
  | Wrote Config "error option"
  | Deleted "error option"

type_synonym event = "call \<times> reply"

definition traced :: "'s ConfigStore \<Rightarrow> ('s \<times> event list) ConfigStore" where
  "traced r =
     \<lparr>Schemas = (\<lambda>(s, tr). Schemas r s),
      Get = (\<lambda>g name ns (s, tr).
        let (v, s') = Get r g name ns s in (v, (s', tr @ [(Get_call g name ns, Got v)]))),
      List = (\<lambda>g ns (s, tr).
        let (l, s') = List r g ns s in (l, (s', tr @ [(List_call g ns, Listed l)]))),
      Create = (\<lambda>cfg (s, tr).
        let ((c, err), s') = Create r cfg s
        in ((c, err), (s', tr @ [(Create_call cfg, Wrote c err)]))),
      Update = (\<lambda>cfg (s, tr).
        let ((c, err), s') = Update r cfg s
        in ((c, err), (s', tr @ [(Update_call cfg, Wrote c err)]))),
      Delete = (\<lambda>g name ns rv (s, tr).
        let (err, s') = Delete r g name ns rv s
        in (err, (s', tr @ [(Delete_call g name ns rv, Deleted err)])))\<rparr>"

text \<open>
  What the harness expects of a reply, as the claims word it: the reports that a reply
  must give rise to. A step that creates or deletes a fixture expects no error; the
  negative cases expect an error; the read-back expects a resource that \<open>Compare\<close>
  accepts; the checks of absence expect nothing to be found.
\<close>

definition expectNoError :: "event \<Rightarrow> failure list" where
  "expectNoError ev =
     (case snd ev of
        Wrote c (Some e) \<Rightarrow> [Error_err e]
      | Deleted (Some e) \<Rightarrow> [Error_err e]
      | _ \<Rightarrow> [])"

definition expectError :: "event \<Rightarrow> failure list" where
  "expectError ev =
     (case ev of
        (Create_call cfg, Wrote c None) \<Rightarrow> [Error_msg ''expected error posting invalid object'']
      | (Update_call cfg, Wrote c None) \<Rightarrow> [Error_msg ''expected error updating invalid object'']
      | _ \<Rightarrow> [])"

definition expectEqual :: "Config \<Rightarrow> event \<Rightarrow> failure list" where
  "expectEqual elt ev =
     (case snd ev of
        Got None \<Rightarrow> [Errorf_wanted elt None]
      | Got (Some c) \<Rightarrow> if Compare elt c then [] else [Errorf_wanted elt (Some c)]
      | _ \<Rightarrow> [])"

definition expectNothing :: "event \<Rightarrow> failure list" where
  "expectNothing ev =
     (case snd ev of
        Listed (c # l) \<Rightarrow> [Error_msg ''unexpected objects for missing type'']
      | Got (Some c) \<Rightarrow> [Error_msg ''unexpected configuration object found'']
      | _ \<Rightarrow> [])"

definition expectEmptied :: "event \<Rightarrow> failure list" where
  "expectEmptied ev =
     (case snd ev of
        Listed (c # l) \<Rightarrow> [Errorf_wanted0 (length (c # l)) (c # l)]
      | _ \<Rightarrow> [])"

definition expectStored :: "event \<Rightarrow> failure list" where
  "expectStored ev =
     (case snd ev of
        Wrote c (Some e) \<Rightarrow> [Error_err e]
      | Listed [] \<Rightarrow> [Error_msg ''expected non-zero number of configs'']
      | Got None \<Rightarrow> [Error_msg ''expected to find stored config'']
      | _ \<Rightarrow> [])"

text \<open>
  A script lists the calls of a step in order, each with what the harness expects of
  its reply; \<open>judge\<close> collects the reports of a sequence of replies.
\<close>

type_synonym script = "(call \<times> (event \<Rightarrow> failure list)) list"

definition judge :: "(event \<Rightarrow> failure list) list \<Rightarrow> event list \<Rightarrow> failure list" where
  "judge hs evs = concat (map (\<lambda>(h, ev). h ev) (zip hs evs))"

text \<open>
  A step of the harness, run against the wrapped store (\<open>f'\<close>) and against the store
  itself (\<open>f\<close>), follows a script: it makes the calls of the script in this order
  whatever the store replies, appends the reports of the replies to the log of the
  test, and leaves the store inside as the unwrapped run does.
\<close>

definition phase ::
  "(('s \<times> event list) \<times> T \<Rightarrow> ('s \<times> event list) \<times> T) \<Rightarrow> ('s \<times> T \<Rightarrow> 's \<times> T)
    \<Rightarrow> script \<Rightarrow> bool" where
  "phase f' f sc =
     (\<forall>s tr t. \<exists>s' evs.
        f' ((s, tr), t) = ((s', tr @ evs), t @ judge (map snd sc) evs) \<and>
        f (s, t) = (s', t @ judge (map snd sc) evs) \<and>
        map fst evs = map fst sc)"

text \<open>The scripts of the steps of \<^verbatim>\<open>CheckMapInvariant\<close>, for the fixtures \<open>Make E ns k\<close>.\<close>

definition createScript :: "Collections \<Rightarrow> string \<Rightarrow> int list \<Rightarrow> script" where
  "createScript E ns ks = map (\<lambda>k. (Create_call (Make E ns k), expectNoError)) ks"

definition verifyScript :: "Collections \<Rightarrow> string \<Rightarrow> int list \<Rightarrow> script" where
  "verifyScript E ns ks =
     map (\<lambda>k. (Get_call (mockGvk E) (''mock-config'' @ itoa k) ns,
                expectEqual (Make E ns k))) ks"

definition negativeScript :: "Collections \<Rightarrow> string \<Rightarrow> string \<Rightarrow> script" where
  "negativeScript E rv1 rv2 =
     [(Create_call zeroConfig, expectError),
      (Update_call zeroConfig, expectError),
      (Create_call (invalid E rv1), expectError),
      (Update_call (invalid E rv1), expectError),
      (Create_call (missing E rv2), expectError),
      (Update_call (missing E rv2), expectError),
      (List_call (mockGvk E) [], expectNothing),
      (Get_call (mockGvk E) ''missing'' [], expectNothing)]"

definition deleteScript :: "Collections \<Rightarrow> string \<Rightarrow> int \<Rightarrow> script" where
  "deleteScript E ns n =
     map (\<lambda>i. (Delete_call (mockGvk E) (''mock-config'' @ itoa i) ns None, expectNoError))
       [0..n - 1] @
     [(List_call (mockGvk E) ns, expectEmptied)]"

definition crudScript :: "Collections \<Rightarrow> string \<Rightarrow> int \<Rightarrow> RangeOrders \<Rightarrow> script" where
  "crudScript E ns n ord =
     createScript E ns (createOrder ord) @ verifyScript E ns (verifyOrder ord) @
     negativeScript E [] [] @ deleteScript E ns n"

text \<open>What the wrapped store has written down when a check ends, either way.\<close>

definition trace :: "(('s \<times> event list) \<times> T) run \<Rightarrow> event list" where
  "trace res = (case res of Done ((s, evs), t) \<Rightarrow> evs | FailNow ((s, evs), t) \<Rightarrow> evs)"

text \<open>
  The script of one sub-test of \<^verbatim>\<open>CheckIstioConfigTypes\<close>, and the reports of the
  sub-tests, three replies each.
\<close>

definition subtestCalls :: "string \<Rightarrow> testcase \<Rightarrow> call list" where
  "subtestCalls ns c =
     (case c of (name, configName, schema, spec) \<Rightarrow>
        [Create_call
           \<lparr>GroupVersionKind = schemaGvk schema, Name = configName,
            Namespace = (if IsClusterScoped schema then [] else ns), Labels = None,
            Annotations = None, ResourceVersion = [], CreationTimestamp = zeroTime,
            Spec = spec\<rparr>,
         List_call (schemaGvk schema) ns,
         Get_call (schemaGvk schema) configName ns])"

fun subtestReports :: "testcase list \<Rightarrow> event list \<Rightarrow> (string \<times> T) list" where
  "subtestReports [] evs = []"
| "subtestReports (c # cs) evs =
     (fst c, judge [expectStored, expectStored, expectStored] (take 3 evs)) #
     subtestReports cs (drop 3 evs)"

section \<open>Sample inputs\<close>

text \<open>
  Concrete inputs on which the statements below are evaluated: a registry of schemas
  in which every kind is namespaced, one in which the gateway kind is cluster-scoped,
  and a small store in memory that keeps its resources in a list, rejects what the
  store contract tells it to reject and stamps a version on what it accepts.
\<close>

text \<open>
  A resource type with one field beyond those the file names, as the declaration of
  \<^verbatim>\<open>config.Config\<close> outside the file may have, and a resource of this type for each
  value of the field.
\<close>

record DomainConfig = Config +
  Domain :: string

definition inDomain :: "string \<Rightarrow> DomainConfig" where
  "inDomain d =
     \<lparr>GroupVersionKind = \<lparr>Group = ''test.istio.io'', Version = ''v1'', Kind = ''MockConfig''\<rparr>,
      Name = ''mock-config0'', Namespace = ''ns1'',
      Labels = Some [''key'' \<mapsto> ''mock-config0''],
      Annotations = Some [''annotationkey'' \<mapsto> ''mock-config0''],
      ResourceVersion = [], CreationTimestamp = zeroTime,
      Spec = MockConfigPtr
        \<lparr>Key = ''mock-config0'', Pairs = Some [\<lparr>PKey = ''key'', PValue = ''0''\<rparr>]\<rparr>,
      Domain = d\<rparr>"

definition sampleSchema :: "string \<Rightarrow> Schema" where
  "sampleSchema kind =
     \<lparr>schemaGvk = \<lparr>Group = ''test.istio.io'', Version = ''v1'', Kind = kind\<rparr>,
      IsClusterScoped = False\<rparr>"

definition sampleCollections :: Collections where
  "sampleCollections =
     \<lparr>Mock = sampleSchema ''MockConfig'',
      VirtualService = sampleSchema ''VirtualService'',
      DestinationRule = sampleSchema ''DestinationRule'',
      ServiceEntry = sampleSchema ''ServiceEntry'',
      Gateway = sampleSchema ''Gateway'',
      AuthorizationPolicy = sampleSchema ''AuthorizationPolicy''\<rparr>"

definition clusterCollections :: Collections where
  "clusterCollections =
     sampleCollections\<lparr>Gateway := (sampleSchema ''Gateway'')\<lparr>IsClusterScoped := True\<rparr>\<rparr>"

definition schemasOf :: "Collections \<Rightarrow> Schema list" where
  "schemasOf E =
     [Mock E, VirtualService E, DestinationRule E, ServiceEntry E, Gateway E,
      AuthorizationPolicy E]"

definition findSchema :: "Schema list \<Rightarrow> GroupVersionKind \<Rightarrow> Schema option" where
  "findSchema schemas g = find (\<lambda>sch. schemaGvk sch = g) schemas"

definition memMatch ::
  "Schema list \<Rightarrow> GroupVersionKind \<Rightarrow> string \<Rightarrow> string \<Rightarrow> Config \<Rightarrow> bool" where
  "memMatch schemas g name ns c =
     (GroupVersionKind c = g \<and> Name c = name \<and>
      (case findSchema schemas g of
         None \<Rightarrow> False
       | Some sch \<Rightarrow> IsClusterScoped sch \<or> Namespace c = ns))"

definition memCreate :: "Schema list \<Rightarrow> Config \<Rightarrow> Config list \<Rightarrow> (Config \<times> error option) \<times> Config list" where
  "memCreate schemas cfg s =
     (case findSchema schemas (GroupVersionKind cfg) of
        None \<Rightarrow> ((cfg, Some ''unknown kind''), s)
      | Some sch \<Rightarrow>
          if Name cfg = [] then ((cfg, Some ''invalid identity''), s)
          else if Namespace cfg = [] \<and> \<not> IsClusterScoped sch
          then ((cfg, Some ''invalid identity''), s)
          else if find (memMatch schemas (GroupVersionKind cfg) (Name cfg) (Namespace cfg)) s
                  \<noteq> None
          then ((cfg, Some ''already exists''), s)
          else (let c = cfg\<lparr>ResourceVersion := ''v1''\<rparr> in ((c, None), s @ [c])))"

definition memUpdate :: "Schema list \<Rightarrow> Config \<Rightarrow> Config list \<Rightarrow> (Config \<times> error option) \<times> Config list" where
  "memUpdate schemas cfg s =
     (case find (memMatch schemas (GroupVersionKind cfg) (Name cfg) (Namespace cfg)) s of
        None \<Rightarrow> ((cfg, Some ''not found''), s)
      | Some old \<Rightarrow>
          if ResourceVersion cfg = ResourceVersion old
          then (let c = cfg\<lparr>ResourceVersion := ResourceVersion old @ ''+''\<rparr>
                in ((c, None),
                    map (\<lambda>x. if memMatch schemas (GroupVersionKind cfg) (Name cfg)
                                   (Namespace cfg) x then c else x) s))
          else ((cfg, Some ''version mismatch''), s))"

definition memDelete ::
  "Schema list \<Rightarrow> GroupVersionKind \<Rightarrow> string \<Rightarrow> string \<Rightarrow> string option \<Rightarrow> Config list
    \<Rightarrow> error option \<times> Config list" where
  "memDelete schemas g name ns rv s =
     (if find (memMatch schemas g name ns) s = None then (Some ''not found'', s)
      else (None, filter (\<lambda>c. \<not> memMatch schemas g name ns c) s))"

definition memStore :: "Schema list \<Rightarrow> Config list ConfigStore" where
  "memStore schemas =
     \<lparr>Schemas = (\<lambda>s. findSchema schemas),
      Get = (\<lambda>g name ns s. (find (memMatch schemas g name ns) s, s)),
      List = (\<lambda>g ns s. (filter (\<lambda>c. GroupVersionKind c = g \<and> Namespace c = ns) s, s)),
      Create = memCreate schemas,
      Update = memUpdate schemas,
      Delete = memDelete schemas\<rparr>"

section \<open>Decimal numerals\<close>

lemma digit_cases:
  "d < 10 \<Longrightarrow> d = 0 \<or> d = 1 \<or> d = 2 \<or> d = 3 \<or> d = 4 \<or> d = 5 \<or> d = 6 \<or> d = 7 \<or> d = 8 \<or> d = (9::nat)"
  by arith

lemma digit_val_digit: "d < 10 \<Longrightarrow> digit_val (digit d) = d"
  using digit_cases [of d] by (auto simp: digit_val_def digit_def)

lemma digit_in_digits: "d < 10 \<Longrightarrow> digit d \<in> set ''0123456789''"
  using digit_cases [of d] by (auto simp: digit_def)

lemma utoa_val_snoc: "utoa_val (s @ [c]) = 10 * utoa_val s + digit_val c"
  by (simp add: utoa_val_def)

lemma utoa_val_utoa: "utoa_val (utoa n) = n"
proof (induction n rule: utoa.induct)
  case (1 n)
  show ?case
  proof (cases "n < 10")
    case True
    then show ?thesis
      by (subst utoa.simps) (simp add: utoa_val_def digit_val_digit)
  next
    case False
    with 1 have "utoa_val (utoa (n div 10)) = n div 10" by simp
    with False show ?thesis
      by (subst utoa.simps) (simp add: utoa_val_snoc digit_val_digit)
  qed
qed

lemma utoa_digits: "set (utoa n) \<subseteq> set ''0123456789''"
proof (induction n rule: utoa.induct)
  case (1 n)
  show ?case
  proof (cases "n < 10")
    case True
    then show ?thesis
      using digit_in_digits [of n] by (subst utoa.simps) simp
  next
    case False
    with 1 have "set (utoa (n div 10)) \<subseteq> set ''0123456789''" by simp
    with False show ?thesis
      using digit_in_digits [of "n mod 10"] by (subst utoa.simps) simp
  qed
qed

lemma utoa_not_Nil: "utoa n \<noteq> []"
  by (subst utoa.simps) simp

lemma utoa_hd: "utoa n = c # r \<Longrightarrow> c \<noteq> CHR ''-''"
  using utoa_digits [of n] by auto

lemma atoi_itoa: "atoi (itoa i) = i"
proof (cases "i < 0")
  case True
  then show ?thesis by (simp add: atoi_def itoa_def utoa_val_utoa)
next
  case False
  obtain c r where cr: "utoa (nat i) = c # r"
    using utoa_not_Nil [of "nat i"] by (cases "utoa (nat i)") auto
  from utoa_hd [OF cr] have "c \<noteq> CHR ''-''" .
  with False cr utoa_val_utoa [of "nat i"] show ?thesis
    by (simp add: atoi_def itoa_def)
qed

lemma itoa_inj: "itoa i = itoa j \<Longrightarrow> i = j"
  by (metis atoi_itoa)

lemma itoa_digits: "0 \<le> i \<Longrightarrow> set (itoa i) \<subseteq> set ''0123456789''"
  using utoa_digits [of "nat i"] by (simp add: itoa_def)

section \<open>The fixtures\<close>

lemma Name_Make: "Name (Make E ns i) = ''mock-config'' @ itoa i"
  by (simp add: Make_def Let_def)

lemma Namespace_Make: "Namespace (Make E ns i) = ns"
  by (simp add: Make_def Let_def)

lemma ResourceVersion_Make: "ResourceVersion (Make E ns i) = []"
  by (simp add: Make_def Let_def)

lemma Name_Make_inj: "Name (Make E ns i) = Name (Make E ns' j) \<Longrightarrow> i = j"
  by (simp add: Name_Make itoa_inj)

lemma createConfigs_loop_apply:
  "createConfigs_loop E ns n i elts k =
     (if i \<le> k \<and> k < n then Some (Make E ns k) else elts k)"
proof (induction E ns n i elts rule: createConfigs_loop.induct)
  case (1 E ns n i elts)
  show ?case
  proof (cases "i < n")
    case True
    have step: "createConfigs_loop E ns n i elts =
        createConfigs_loop E ns n (i + 1) (elts(i \<mapsto> Make E ns i))"
      using True by (subst createConfigs_loop.simps) simp
    have "createConfigs_loop E ns n (i + 1) (elts(i \<mapsto> Make E ns i)) k =
        (if i + 1 \<le> k \<and> k < n then Some (Make E ns k)
         else (elts(i \<mapsto> Make E ns i)) k)"
      using 1 True by blast
    with True show ?thesis
      unfolding step by (cases "k = i") auto
  next
    case False
    then show ?thesis
      by (subst createConfigs_loop.simps) auto
  qed
qed

lemma createConfigs_apply:
  "createConfigs E ns n k = (if 0 \<le> k \<and> k < n then Some (Make E ns k) else None)"
  by (simp add: createConfigs_def createConfigs_loop_apply)

lemma dom_createConfigs: "dom (createConfigs E ns n) = {0..<n}"
  by (auto simp: createConfigs_apply dom_def)

lemma range_entries_Nil: "range_entries elts [] = []"
  by (simp add: range_entries_def map_filter_simps)

lemma range_entries_Cons:
  "range_entries elts (k # ks) =
     (case elts k of None \<Rightarrow> range_entries elts ks | Some v \<Rightarrow> (k, v) # range_entries elts ks)"
  by (simp add: range_entries_def map_filter_simps split: option.split)

lemma range_entries_createConfigs:
  "set ks \<subseteq> {0..<n} \<Longrightarrow>
     range_entries (createConfigs E ns n) ks = map (\<lambda>k. (k, Make E ns k)) ks"
  by (induction ks) (simp_all add: range_entries_Nil range_entries_Cons createConfigs_apply)

lemma range_order_createConfigs:
  "range_order (createConfigs E ns n) ks \<longleftrightarrow> distinct ks \<and> set ks = {0..<n}"
  by (simp add: range_order_def dom_createConfigs)

lemma getFirstRevision_createConfigs: "getFirstRevision (createConfigs E ns n) ks = []"
proof (induction ks)
  case Nil
  then show ?case by (simp add: getFirstRevision_def range_entries_Nil)
next
  case (Cons k ks)
  then show ?case
    by (simp add: getFirstRevision_def range_entries_Cons createConfigs_apply
        ResourceVersion_Make)
qed

section \<open>The wrapped store\<close>

lemma Schemas_traced: "Schemas (traced r) (s, tr) = Schemas r s"
  by (simp add: traced_def)

lemma Get_traced:
  "Get (traced r) g name ns (s, tr) =
     (fst (Get r g name ns s),
      (snd (Get r g name ns s), tr @ [(Get_call g name ns, Got (fst (Get r g name ns s)))]))"
  by (simp add: traced_def split: prod.split)

lemma List_traced:
  "List (traced r) g ns (s, tr) =
     (fst (List r g ns s),
      (snd (List r g ns s), tr @ [(List_call g ns, Listed (fst (List r g ns s)))]))"
  by (simp add: traced_def split: prod.split)

lemma Create_traced:
  "Create (traced r) cfg (s, tr) =
     (fst (Create r cfg s),
      (snd (Create r cfg s),
       tr @ [(Create_call cfg, Wrote (fst (fst (Create r cfg s))) (snd (fst (Create r cfg s))))]))"
  by (simp add: traced_def split: prod.split)

lemma Update_traced:
  "Update (traced r) cfg (s, tr) =
     (fst (Update r cfg s),
      (snd (Update r cfg s),
       tr @ [(Update_call cfg, Wrote (fst (fst (Update r cfg s))) (snd (fst (Update r cfg s))))]))"
  by (simp add: traced_def split: prod.split)

lemma Delete_traced:
  "Delete (traced r) g name ns rv (s, tr) =
     (fst (Delete r g name ns rv s),
      (snd (Delete r g name ns rv s),
       tr @ [(Delete_call g name ns rv, Deleted (fst (Delete r g name ns rv s)))]))"
  by (simp add: traced_def split: prod.split)

lemmas traced_simps =
  Schemas_traced Get_traced List_traced Create_traced Update_traced Delete_traced

section \<open>Steps of the harness\<close>

lemma judge_Nil: "judge hs [] = []"
  by (simp add: judge_def)

lemma judge_Cons: "judge (h # hs) (ev # evs) = h ev @ judge hs evs"
  by (simp add: judge_def)

lemma judge_append:
  "length hs = length evs \<Longrightarrow> judge (hs @ hs') (evs @ evs') = judge hs evs @ judge hs' evs'"
  by (simp add: judge_def)

lemma phaseI:
  assumes "\<And>s tr t. \<exists>s' evs. f' ((s, tr), t) = ((s', tr @ evs), t @ judge (map snd sc) evs) \<and>
             f (s, t) = (s', t @ judge (map snd sc) evs) \<and> map fst evs = map fst sc"
  shows "phase f' f sc"
  using assms unfolding phase_def by blast

lemma phaseE:
  assumes "phase f' f sc"
  obtains s' evs where "f' ((s, tr), t) = ((s', tr @ evs), t @ judge (map snd sc) evs)"
    and "f (s, t) = (s', t @ judge (map snd sc) evs)" and "map fst evs = map fst sc"
  using assms unfolding phase_def by blast

lemma phase_skip:
  assumes "\<And>st. f' st = st" and "\<And>st. f st = st"
  shows "phase f' f []"
  by (rule phaseI) (simp add: assms judge_Nil)

lemma phase_comp:
  assumes f: "phase f' f sc1" and g: "phase g' g sc2"
  shows "phase (\<lambda>st. g' (f' st)) (\<lambda>st. g (f st)) (sc1 @ sc2)"
proof (rule phaseI)
  fix s tr t
  let ?h1 = "map snd sc1" and ?h2 = "map snd sc2"
  from f obtain s1 evs1 where f1: "f' ((s, tr), t) = ((s1, tr @ evs1), t @ judge ?h1 evs1)"
    and f2: "f (s, t) = (s1, t @ judge ?h1 evs1)" and f3: "map fst evs1 = map fst sc1"
    by (rule phaseE)
  from g obtain s2 evs2 where
    g1: "g' ((s1, tr @ evs1), t @ judge ?h1 evs1) =
           ((s2, (tr @ evs1) @ evs2), (t @ judge ?h1 evs1) @ judge ?h2 evs2)"
    and g2: "g (s1, t @ judge ?h1 evs1) = (s2, (t @ judge ?h1 evs1) @ judge ?h2 evs2)"
    and g3: "map fst evs2 = map fst sc2"
    by (rule phaseE)
  from f3 have len: "length ?h1 = length evs1"
    by (metis length_map)
  have j: "judge (map snd (sc1 @ sc2)) (evs1 @ evs2) = judge ?h1 evs1 @ judge ?h2 evs2"
    using judge_append [OF len] by simp
  have "g' (f' ((s, tr), t)) = ((s2, tr @ (evs1 @ evs2)), t @ judge (map snd (sc1 @ sc2)) (evs1 @ evs2))"
    using f1 g1 j by simp
  moreover have "g (f (s, t)) = (s2, t @ judge (map snd (sc1 @ sc2)) (evs1 @ evs2))"
    using f2 g2 j by simp
  moreover have "map fst (evs1 @ evs2) = map fst (sc1 @ sc2)"
    using f3 g3 by simp
  ultimately show "\<exists>s' evs.
      g' (f' ((s, tr), t)) = ((s', tr @ evs), t @ judge (map snd (sc1 @ sc2)) evs) \<and>
      g (f (s, t)) = (s', t @ judge (map snd (sc1 @ sc2)) evs) \<and>
      map fst evs = map fst (sc1 @ sc2)"
    by blast
qed

lemma phase_fun_cong:
  assumes "phase f' f sc" and "\<And>st. g' st = f' st" and "\<And>st. g st = f st"
  shows "phase g' g sc"
  using assms unfolding phase_def by simp

lemma phase_script_cong:
  assumes "phase f' f sc" and "sc = sc'"
  shows "phase f' f sc'"
  using assms by simp

text \<open>A step that makes one call.\<close>

lemma phase_single:
  assumes "\<And>s tr t. \<exists>s' rp.
      f' ((s, tr), t) = ((s', tr @ [(c, rp)]), t @ h (c, rp)) \<and>
      f (s, t) = (s', t @ h (c, rp))"
  shows "phase f' f [(c, h)]"
proof (rule phaseI)
  fix s tr t
  from assms [of s tr t] obtain s' rp where
    "f' ((s, tr), t) = ((s', tr @ [(c, rp)]), t @ h (c, rp))"
    "f (s, t) = (s', t @ h (c, rp))"
    by blast
  then show "\<exists>s' evs. f' ((s, tr), t) = ((s', tr @ evs), t @ judge (map snd [(c, h)]) evs) \<and>
      f (s, t) = (s', t @ judge (map snd [(c, h)]) evs) \<and> map fst evs = map fst [(c, h)]"
    by (intro exI [of _ s'] exI [of _ "[(c, rp)]"]) (simp add: judge_Cons judge_Nil)
qed

subsection \<open>Creation\<close>

lemma phase_create_step:
  "phase (createConfigsInStore_loop (traced r) [(i, elt)])
         (createConfigsInStore_loop r [(i, elt)])
         [(Create_call elt, expectNoError)]"
proof (rule phase_single)
  fix s tr t
  obtain c err s1 where cr: "Create r elt s = ((c, err), s1)"
    by (metis prod.exhaust)
  show "\<exists>s' rp.
      createConfigsInStore_loop (traced r) [(i, elt)] ((s, tr), t) =
        ((s', tr @ [(Create_call elt, rp)]), t @ expectNoError (Create_call elt, rp)) \<and>
      createConfigsInStore_loop r [(i, elt)] (s, t) =
        (s', t @ expectNoError (Create_call elt, rp))"
    using cr
    by (intro exI [of _ s1] exI [of _ "Wrote c err"], cases err)
       (simp_all add: traced_simps expectNoError_def)
qed

lemma createConfigsInStore_loop_Cons:
  "createConfigsInStore_loop r (e # es) st =
     createConfigsInStore_loop r es (createConfigsInStore_loop r [e] st)"
  by (cases e; cases st) (simp split: prod.split)

lemma phase_create_loop:
  "phase (createConfigsInStore_loop (traced r) es) (createConfigsInStore_loop r es)
         (map (\<lambda>e. (Create_call (snd e), expectNoError)) es)"
proof (induction es)
  case Nil
  show ?case
    by (simp, rule phase_skip) simp_all
next
  case (Cons e es)
  obtain i elt where e: "e = (i, elt)" by (cases e)
  have "phase (\<lambda>st. createConfigsInStore_loop (traced r) es
                     (createConfigsInStore_loop (traced r) [e] st))
              (\<lambda>st. createConfigsInStore_loop r es (createConfigsInStore_loop r [e] st))
              ([(Create_call elt, expectNoError)] @
               map (\<lambda>e. (Create_call (snd e), expectNoError)) es)"
    unfolding e by (rule phase_comp [OF phase_create_step Cons.IH])
  then have "phase (createConfigsInStore_loop (traced r) (e # es))
              (createConfigsInStore_loop r (e # es))
              ([(Create_call elt, expectNoError)] @
               map (\<lambda>e. (Create_call (snd e), expectNoError)) es)"
    by (rule phase_fun_cong) (rule createConfigsInStore_loop_Cons)+
  then show ?case
    by (rule phase_script_cong) (simp add: e)
qed

lemma phase_createConfigsInStore:
  assumes "set ks \<subseteq> {0..<n}"
  shows "phase (createConfigsInStore (traced r) (createConfigs E ns n) ks)
           (createConfigsInStore r (createConfigs E ns n) ks) (createScript E ns ks)"
proof -
  have "phase (createConfigsInStore_loop (traced r) (map (\<lambda>k. (k, Make E ns k)) ks))
          (createConfigsInStore_loop r (map (\<lambda>k. (k, Make E ns k)) ks))
          (map (\<lambda>e. (Create_call (snd e), expectNoError)) (map (\<lambda>k. (k, Make E ns k)) ks))"
    by (rule phase_create_loop)
  then have "phase (createConfigsInStore_loop (traced r) (map (\<lambda>k. (k, Make E ns k)) ks))
          (createConfigsInStore_loop r (map (\<lambda>k. (k, Make E ns k)) ks))
          (createScript E ns ks)"
    by (rule phase_script_cong) (simp add: createScript_def comp_def)
  then show ?thesis
    by (rule phase_fun_cong)
       (simp_all add: createConfigsInStore_def range_entries_createConfigs [OF assms])
qed

subsection \<open>Reading back\<close>

lemma verify_step:
  assumes "Get r (mockGvk E) (Name elt) (Namespace elt) s = (v1, s1)"
  shows "\<exists>revs'. verifyConfigsInStore_loop E r ((i, elt) # es) ((s, t), revs) =
     verifyConfigsInStore_loop E r es
       ((s1, t @ expectEqual elt (Get_call (mockGvk E) (Name elt) (Namespace elt), Got v1)), revs')"
  using assms by (cases v1) (auto simp: expectEqual_def)

lemma verify_step_traced:
  assumes "Get r (mockGvk E) (Name elt) (Namespace elt) s = (v1, s1)"
  shows "\<exists>revs'. verifyConfigsInStore_loop E (traced r) ((i, elt) # es) (((s, tr), t), revs) =
     verifyConfigsInStore_loop E (traced r) es
       (((s1, tr @ [(Get_call (mockGvk E) (Name elt) (Namespace elt), Got v1)]),
         t @ expectEqual elt (Get_call (mockGvk E) (Name elt) (Namespace elt), Got v1)), revs')"
  using assms by (cases v1) (auto simp: expectEqual_def traced_simps)

lemma phase_verify_loop:
  "phase (\<lambda>st. fst (verifyConfigsInStore_loop E (traced r) es (st, revs)))
         (\<lambda>st. fst (verifyConfigsInStore_loop E r es (st, revs')))
         (map (\<lambda>e. (Get_call (mockGvk E) (Name (snd e)) (Namespace (snd e)),
                      expectEqual (snd e))) es)"
proof (induction es arbitrary: revs revs')
  case Nil
  show ?case
    by (simp, rule phase_skip) simp_all
next
  case (Cons e es)
  obtain i elt where e: "e = (i, elt)" by (cases e)
  let ?c = "Get_call (mockGvk E) (Name elt) (Namespace elt)"
  let ?sc = "map (\<lambda>e. (Get_call (mockGvk E) (Name (snd e)) (Namespace (snd e)),
                      expectEqual (snd e))) es"
  show ?case
  proof (rule phaseI)
    fix s tr t
    obtain v1 s1 where g: "Get r (mockGvk E) (Name elt) (Namespace elt) s = (v1, s1)"
      by (metis prod.exhaust)
    let ?t1 = "t @ expectEqual elt (?c, Got v1)"
    from verify_step [OF g] obtain ra where
      a: "verifyConfigsInStore_loop E r ((i, elt) # es) ((s, t), revs') =
          verifyConfigsInStore_loop E r es ((s1, ?t1), ra)"
      by blast
    from verify_step_traced [OF g] obtain rb where
      b: "verifyConfigsInStore_loop E (traced r) ((i, elt) # es) (((s, tr), t), revs) =
          verifyConfigsInStore_loop E (traced r) es (((s1, tr @ [(?c, Got v1)]), ?t1), rb)"
      by blast
    from Cons.IH [of rb ra] obtain s2 evs where
      c1: "fst (verifyConfigsInStore_loop E (traced r) es (((s1, tr @ [(?c, Got v1)]), ?t1), rb)) =
           ((s2, (tr @ [(?c, Got v1)]) @ evs), ?t1 @ judge (map snd ?sc) evs)"
      and c2: "fst (verifyConfigsInStore_loop E r es ((s1, ?t1), ra)) =
           (s2, ?t1 @ judge (map snd ?sc) evs)"
      and c3: "map fst evs = map fst ?sc"
      by (rule phaseE)
    show "\<exists>s' evs.
        fst (verifyConfigsInStore_loop E (traced r) (e # es) (((s, tr), t), revs)) =
          ((s', tr @ evs),
           t @ judge (map snd (map (\<lambda>e. (Get_call (mockGvk E) (Name (snd e)) (Namespace (snd e)),
                      expectEqual (snd e))) (e # es))) evs) \<and>
        fst (verifyConfigsInStore_loop E r (e # es) ((s, t), revs')) =
          (s', t @ judge (map snd (map (\<lambda>e. (Get_call (mockGvk E) (Name (snd e)) (Namespace (snd e)),
                      expectEqual (snd e))) (e # es))) evs) \<and>
        map fst evs = map fst (map (\<lambda>e. (Get_call (mockGvk E) (Name (snd e)) (Namespace (snd e)),
                      expectEqual (snd e))) (e # es))"
      unfolding e a b using c1 c2 c3
      by (intro exI [of _ s2] exI [of _ "(?c, Got v1) # evs"]) (simp add: judge_Cons)
  qed
qed

lemma phase_verifyConfigsInStore:
  assumes "set ks \<subseteq> {0..<n}"
  shows "phase (verifyConfigsInStore E (traced r) (createConfigs E ns n) ks)
           (verifyConfigsInStore E r (createConfigs E ns n) ks) (verifyScript E ns ks)"
proof -
  let ?es = "map (\<lambda>k. (k, Make E ns k)) ks"
  have "phase (\<lambda>st. fst (verifyConfigsInStore_loop E (traced r) ?es (st, Map.empty)))
          (\<lambda>st. fst (verifyConfigsInStore_loop E r ?es (st, Map.empty)))
          (map (\<lambda>e. (Get_call (mockGvk E) (Name (snd e)) (Namespace (snd e)),
                      expectEqual (snd e))) ?es)"
    by (rule phase_verify_loop)
  then have "phase (\<lambda>st. fst (verifyConfigsInStore_loop E (traced r) ?es (st, Map.empty)))
          (\<lambda>st. fst (verifyConfigsInStore_loop E r ?es (st, Map.empty)))
          (verifyScript E ns ks)"
    by (rule phase_script_cong)
       (simp add: verifyScript_def comp_def Name_Make Namespace_Make)
  then show ?thesis
    by (rule phase_fun_cong)
       (simp_all add: verifyConfigsInStore_def range_entries_createConfigs [OF assms])
qed

subsection \<open>Negative cases\<close>

lemma phase_assertError:
  "phase (assertError (traced r) cfg) (assertError r cfg)
         [(Create_call cfg, expectError), (Update_call cfg, expectError)]"
proof (rule phaseI)
  fix s tr t
  obtain c1 err1 s1 where cr: "Create r cfg s = ((c1, err1), s1)"
    by (metis prod.exhaust)
  obtain c2 err2 s2 where up: "Update r cfg s1 = ((c2, err2), s2)"
    by (metis prod.exhaust)
  let ?evs = "[(Create_call cfg, Wrote c1 err1), (Update_call cfg, Wrote c2 err2)]"
  let ?sc = "[(Create_call cfg, expectError), (Update_call cfg, expectError)]"
  have j: "judge (map snd ?sc) ?evs =
      (if err1 = None then [Error_msg ''expected error posting invalid object''] else []) @
      (if err2 = None then [Error_msg ''expected error updating invalid object''] else [])"
    by (cases err1; cases err2) (simp_all add: judge_Cons judge_Nil expectError_def)
  have "assertError (traced r) cfg ((s, tr), t) = ((s2, tr @ ?evs), t @ judge (map snd ?sc) ?evs)"
    unfolding j using cr up by (simp add: assertError_def traced_simps Let_def)
  moreover have "assertError r cfg (s, t) = (s2, t @ judge (map snd ?sc) ?evs)"
    unfolding j using cr up by (simp add: assertError_def Let_def)
  ultimately show "\<exists>s' evs.
      assertError (traced r) cfg ((s, tr), t) = ((s', tr @ evs), t @ judge (map snd ?sc) evs) \<and>
      assertError r cfg (s, t) = (s', t @ judge (map snd ?sc) evs) \<and>
      map fst evs = map fst ?sc"
    by (intro exI [of _ s2] exI [of _ ?evs]) simp
qed

lemma phase_verifyMissingElements:
  "phase (verifyMissingElements E (traced r)) (verifyMissingElements E r)
         [(List_call (mockGvk E) [], expectNothing),
          (Get_call (mockGvk E) ''missing'' [], expectNothing)]"
proof (rule phaseI)
  fix s tr t
  obtain l s1 where li: "List r (mockGvk E) [] s = (l, s1)"
    by (metis prod.exhaust)
  obtain cfg s2 where ge: "Get r (mockGvk E) ''missing'' [] s1 = (cfg, s2)"
    by (metis prod.exhaust)
  let ?evs = "[(List_call (mockGvk E) [], Listed l),
               (Get_call (mockGvk E) ''missing'' [], Got cfg)]"
  let ?sc = "[(List_call (mockGvk E) [], expectNothing),
              (Get_call (mockGvk E) ''missing'' [], expectNothing)]"
  have j: "judge (map snd ?sc) ?evs =
      (if length l > 0 then [Error_msg ''unexpected objects for missing type''] else []) @
      (if cfg \<noteq> None then [Error_msg ''unexpected configuration object found''] else [])"
    by (cases l; cases cfg) (simp_all add: judge_Cons judge_Nil expectNothing_def)
  have "verifyMissingElements E (traced r) ((s, tr), t) =
      ((s2, tr @ ?evs), t @ judge (map snd ?sc) ?evs)"
    unfolding j using li ge by (simp add: verifyMissingElements_def traced_simps Let_def)
  moreover have "verifyMissingElements E r (s, t) = (s2, t @ judge (map snd ?sc) ?evs)"
    unfolding j using li ge by (simp add: verifyMissingElements_def Let_def)
  ultimately show "\<exists>s' evs.
      verifyMissingElements E (traced r) ((s, tr), t) =
        ((s', tr @ evs), t @ judge (map snd ?sc) evs) \<and>
      verifyMissingElements E r (s, t) = (s', t @ judge (map snd ?sc) evs) \<and>
      map fst evs = map fst ?sc"
    by (intro exI [of _ s2] exI [of _ ?evs]) simp
qed

lemma phase_verifyErrorsOnInvalidOperations:
  "phase (verifyErrorsOnInvalidOperations E (traced r) elts ks1 ks2)
         (verifyErrorsOnInvalidOperations E r elts ks1 ks2)
         (negativeScript E (getFirstRevision elts ks1) (getFirstRevision elts ks2))"
proof -
  let ?inv = "invalid E (getFirstRevision elts ks1)"
  let ?mis = "missing E (getFirstRevision elts ks2)"
  have "phase
      (\<lambda>st. verifyMissingElements E (traced r)
         (assertError (traced r) ?mis
           (assertError (traced r) ?inv (assertError (traced r) zeroConfig st))))
      (\<lambda>st. verifyMissingElements E r
         (assertError r ?mis (assertError r ?inv (assertError r zeroConfig st))))
      ((([(Create_call zeroConfig, expectError), (Update_call zeroConfig, expectError)] @
         [(Create_call ?inv, expectError), (Update_call ?inv, expectError)]) @
        [(Create_call ?mis, expectError), (Update_call ?mis, expectError)]) @
       [(List_call (mockGvk E) [], expectNothing),
        (Get_call (mockGvk E) ''missing'' [], expectNothing)])"
    by (intro phase_comp phase_assertError phase_verifyMissingElements)
  then have "phase
      (\<lambda>st. verifyMissingElements E (traced r)
         (assertError (traced r) ?mis
           (assertError (traced r) ?inv (assertError (traced r) zeroConfig st))))
      (\<lambda>st. verifyMissingElements E r
         (assertError r ?mis (assertError r ?inv (assertError r zeroConfig st))))
      (negativeScript E (getFirstRevision elts ks1) (getFirstRevision elts ks2))"
    by (rule phase_script_cong) (simp add: negativeScript_def)
  then show ?thesis
    by (rule phase_fun_cong) (simp_all add: verifyErrorsOnInvalidOperations_def Let_def)
qed

subsection \<open>Deletion\<close>

lemma delete_loop_done:
  "\<not> i < n \<Longrightarrow> deleteConfigsFromStore_loop E r ns n i st = st"
  by (cases st) (simp add: deleteConfigsFromStore_loop.simps)

lemma delete_loop_step:
  assumes "i < n"
  shows "deleteConfigsFromStore_loop E r ns n i st =
     deleteConfigsFromStore_loop E r ns n (i + 1) (deleteConfigsFromStore_loop E r ns (i + 1) i st)"
proof (cases st)
  case (Pair s t)
  show ?thesis
    unfolding Pair
    using assms
    by (subst deleteConfigsFromStore_loop.simps,
        subst (2) deleteConfigsFromStore_loop.simps)
       (simp add: delete_loop_done split: prod.split)
qed

lemma phase_delete_step:
  "phase (deleteConfigsFromStore_loop E (traced r) ns (i + 1) i)
         (deleteConfigsFromStore_loop E r ns (i + 1) i)
         [(Delete_call (mockGvk E) (''mock-config'' @ itoa i) ns None, expectNoError)]"
proof (rule phase_single)
  fix s tr t
  let ?c = "Delete_call (mockGvk E) (''mock-config'' @ itoa i) ns None"
  obtain err s1 where de: "Delete r (mockGvk E) (''mock-config'' @ itoa i) ns None s = (err, s1)"
    by (metis prod.exhaust)
  have "deleteConfigsFromStore_loop E (traced r) ns (i + 1) i ((s, tr), t) =
      ((s1, tr @ [(?c, Deleted err)]), t @ expectNoError (?c, Deleted err))"
    using de
    by (subst deleteConfigsFromStore_loop.simps, cases err)
       (simp_all add: traced_simps expectNoError_def delete_loop_done Name_Make)
  moreover have "deleteConfigsFromStore_loop E r ns (i + 1) i (s, t) =
      (s1, t @ expectNoError (?c, Deleted err))"
    using de
    by (subst deleteConfigsFromStore_loop.simps, cases err)
       (simp_all add: expectNoError_def delete_loop_done Name_Make)
  ultimately show "\<exists>s' rp.
      deleteConfigsFromStore_loop E (traced r) ns (i + 1) i ((s, tr), t) =
        ((s', tr @ [(?c, rp)]), t @ expectNoError (?c, rp)) \<and>
      deleteConfigsFromStore_loop E r ns (i + 1) i (s, t) = (s', t @ expectNoError (?c, rp))"
    by blast
qed

lemma phase_delete_loop:
  "phase (deleteConfigsFromStore_loop E (traced r) ns n i)
         (deleteConfigsFromStore_loop E r ns n i)
         (map (\<lambda>j. (Delete_call (mockGvk E) (''mock-config'' @ itoa j) ns None, expectNoError))
            [i..n - 1])"
proof (induction "nat (n - i)" arbitrary: i)
  case 0
  then have "\<not> i < n" by simp
  then show ?case
    by (simp, intro phase_skip) (simp_all add: delete_loop_done)
next
  case (Suc k)
  then have lt: "i < n" and k: "k = nat (n - (i + 1))" by simp_all
  let ?d = "\<lambda>j. (Delete_call (mockGvk E) (''mock-config'' @ itoa j) ns None, expectNoError)"
  have "phase
      (\<lambda>st. deleteConfigsFromStore_loop E (traced r) ns n (i + 1)
         (deleteConfigsFromStore_loop E (traced r) ns (i + 1) i st))
      (\<lambda>st. deleteConfigsFromStore_loop E r ns n (i + 1)
         (deleteConfigsFromStore_loop E r ns (i + 1) i st))
      ([?d i] @ map ?d [i + 1..n - 1])"
    by (rule phase_comp [OF phase_delete_step Suc.hyps(1) [OF k]])
  then have "phase (deleteConfigsFromStore_loop E (traced r) ns n i)
      (deleteConfigsFromStore_loop E r ns n i) ([?d i] @ map ?d [i + 1..n - 1])"
    by (rule phase_fun_cong) (rule delete_loop_step [OF lt])+
  moreover have "[?d i] @ map ?d [i + 1..n - 1] = map ?d [i..n - 1]"
    using lt by (simp add: upto_rec1 [of i "n - 1"])
  ultimately show ?case
    by (rule phase_script_cong)
qed

lemma phase_final_list:
  "phase (\<lambda>st. case st of (s1, t1) \<Rightarrow>
            (let (l, s2) = List (traced r) (mockGvk E) ns s1;
                 t2 = (if length l \<noteq> 0 then t1 @ [Errorf_wanted0 (length l) l] else t1)
             in (s2, t2)))
         (\<lambda>st. case st of (s1, t1) \<Rightarrow>
            (let (l, s2) = List r (mockGvk E) ns s1;
                 t2 = (if length l \<noteq> 0 then t1 @ [Errorf_wanted0 (length l) l] else t1)
             in (s2, t2)))
         [(List_call (mockGvk E) ns, expectEmptied)]"
proof (rule phase_single)
  fix s tr t
  obtain l s1 where li: "List r (mockGvk E) ns s = (l, s1)"
    by (metis prod.exhaust)
  show "\<exists>s' rp.
      (case ((s, tr), t) of (s1, t1) \<Rightarrow>
         (let (l, s2) = List (traced r) (mockGvk E) ns s1;
              t2 = (if length l \<noteq> 0 then t1 @ [Errorf_wanted0 (length l) l] else t1)
          in (s2, t2))) =
        ((s', tr @ [(List_call (mockGvk E) ns, rp)]),
         t @ expectEmptied (List_call (mockGvk E) ns, rp)) \<and>
      (case (s, t) of (s1, t1) \<Rightarrow>
         (let (l, s2) = List r (mockGvk E) ns s1;
              t2 = (if length l \<noteq> 0 then t1 @ [Errorf_wanted0 (length l) l] else t1)
          in (s2, t2))) =
        (s', t @ expectEmptied (List_call (mockGvk E) ns, rp))"
    using li
    by (intro exI [of _ s1] exI [of _ "Listed l"], cases l)
       (simp_all add: traced_simps expectEmptied_def)
qed

lemma phase_deleteConfigsFromStore:
  "phase (deleteConfigsFromStore E (traced r) ns n) (deleteConfigsFromStore E r ns n)
         (deleteScript E ns n)"
proof -
  have "phase
      (\<lambda>st. case deleteConfigsFromStore_loop E (traced r) ns n 0 st of (s1, t1) \<Rightarrow>
            (let (l, s2) = List (traced r) (mockGvk E) ns s1;
                 t2 = (if length l \<noteq> 0 then t1 @ [Errorf_wanted0 (length l) l] else t1)
             in (s2, t2)))
      (\<lambda>st. case deleteConfigsFromStore_loop E r ns n 0 st of (s1, t1) \<Rightarrow>
            (let (l, s2) = List r (mockGvk E) ns s1;
                 t2 = (if length l \<noteq> 0 then t1 @ [Errorf_wanted0 (length l) l] else t1)
             in (s2, t2)))
      (map (\<lambda>j. (Delete_call (mockGvk E) (''mock-config'' @ itoa j) ns None, expectNoError))
            [0..n - 1] @ [(List_call (mockGvk E) ns, expectEmptied)])"
    by (rule phase_comp [OF phase_delete_loop phase_final_list])
  then show ?thesis
    unfolding deleteScript_def
    by (rule phase_fun_cong) (simp_all add: deleteConfigsFromStore_def)
qed

subsection \<open>The whole check\<close>

lemma phase_crud:
  assumes "set (createOrder ord) \<subseteq> {0..<n}" and "set (verifyOrder ord) \<subseteq> {0..<n}"
  shows "phase
      (\<lambda>st. deleteConfigsFromStore E (traced r) ns n
         (verifyErrorsOnInvalidOperations E (traced r) (createConfigs E ns n)
            (invalidOrder ord) (missingOrder ord)
            (verifyConfigsInStore E (traced r) (createConfigs E ns n) (verifyOrder ord)
               (createConfigsInStore (traced r) (createConfigs E ns n) (createOrder ord) st))))
      (\<lambda>st. deleteConfigsFromStore E r ns n
         (verifyErrorsOnInvalidOperations E r (createConfigs E ns n)
            (invalidOrder ord) (missingOrder ord)
            (verifyConfigsInStore E r (createConfigs E ns n) (verifyOrder ord)
               (createConfigsInStore r (createConfigs E ns n) (createOrder ord) st))))
      (createScript E ns (createOrder ord) @ verifyScript E ns (verifyOrder ord) @
       negativeScript E [] [] @ deleteScript E ns n)"
proof -
  have "phase
      (\<lambda>st. deleteConfigsFromStore E (traced r) ns n
         (verifyErrorsOnInvalidOperations E (traced r) (createConfigs E ns n)
            (invalidOrder ord) (missingOrder ord)
            (verifyConfigsInStore E (traced r) (createConfigs E ns n) (verifyOrder ord)
               (createConfigsInStore (traced r) (createConfigs E ns n) (createOrder ord) st))))
      (\<lambda>st. deleteConfigsFromStore E r ns n
         (verifyErrorsOnInvalidOperations E r (createConfigs E ns n)
            (invalidOrder ord) (missingOrder ord)
            (verifyConfigsInStore E r (createConfigs E ns n) (verifyOrder ord)
               (createConfigsInStore r (createConfigs E ns n) (createOrder ord) st))))
      (((createScript E ns (createOrder ord) @ verifyScript E ns (verifyOrder ord)) @
       negativeScript E (getFirstRevision (createConfigs E ns n) (invalidOrder ord))
         (getFirstRevision (createConfigs E ns n) (missingOrder ord))) @
       deleteScript E ns n)"
    by (intro phase_comp phase_createConfigsInStore phase_verifyConfigsInStore
        phase_verifyErrorsOnInvalidOperations phase_deleteConfigsFromStore assms)
  then show ?thesis
    by (rule phase_script_cong) (simp add: getFirstRevision_createConfigs)
qed

subsection \<open>Typed ingestion\<close>

lemma subtest_traced:
  "\<exists>s' evs.
     subtest (traced store) ns c (s, tr) =
       ((s', tr @ evs), judge [expectStored, expectStored, expectStored] evs) \<and>
     subtest store ns c s = (s', judge [expectStored, expectStored, expectStored] evs) \<and>
     map fst evs = subtestCalls ns c"
proof -
  obtain name configName schema spec where c: "c = (name, configName, schema, spec)"
    by (cases c)
  let ?cfg = "\<lparr>GroupVersionKind = schemaGvk schema, Name = configName,
            Namespace = (if IsClusterScoped schema then [] else ns), Labels = None,
            Annotations = None, ResourceVersion = [], CreationTimestamp = zeroTime,
            Spec = spec\<rparr>"
  obtain c1 err s1 where cr: "Create store ?cfg s = ((c1, err), s1)"
    by (metis prod.exhaust)
  obtain l s2 where li: "List store (schemaGvk schema) ns s1 = (l, s2)"
    by (metis prod.exhaust)
  obtain v s3 where ge: "Get store (schemaGvk schema) configName ns s2 = (v, s3)"
    by (metis prod.exhaust)
  let ?evs = "[(Create_call ?cfg, Wrote c1 err), (List_call (schemaGvk schema) ns, Listed l),
               (Get_call (schemaGvk schema) configName ns, Got v)]"
  have j: "judge [expectStored, expectStored, expectStored] ?evs =
      ((case err of Some e \<Rightarrow> [Error_err e] | None \<Rightarrow> []) @
       (if l = [] then [Error_msg ''expected non-zero number of configs''] else [])) @
      (if v = None then [Error_msg ''expected to find stored config''] else [])"
    by (cases err; cases l; cases v) (simp_all add: judge_Cons judge_Nil expectStored_def)
  have cfg: "Meta.extend
      (if \<not> IsClusterScoped schema
       then \<lparr>GroupVersionKind = schemaGvk schema, Name = configName,
               Namespace = [], Labels = None, Annotations = None, ResourceVersion = [],
               CreationTimestamp = zeroTime\<rparr>\<lparr>Namespace := ns\<rparr>
       else \<lparr>GroupVersionKind = schemaGvk schema, Name = configName,
               Namespace = [], Labels = None, Annotations = None, ResourceVersion = [],
               CreationTimestamp = zeroTime\<rparr>) (Config.fields spec) = ?cfg"
    by (simp add: Meta.defs Config.defs)
  have "subtest (traced store) ns c (s, tr) =
      ((s3, tr @ ?evs), judge [expectStored, expectStored, expectStored] ?evs)"
    unfolding j c using cr li ge
    by (simp add: subtest_def Let_def cfg traced_simps)
  moreover have "subtest store ns c s =
      (s3, judge [expectStored, expectStored, expectStored] ?evs)"
    unfolding j c using cr li ge
    by (simp add: subtest_def Let_def cfg)
  moreover have "map fst ?evs = subtestCalls ns c"
    by (simp add: c subtestCalls_def)
  ultimately show ?thesis
    by blast
qed

lemma subtestCalls_length: "length (subtestCalls ns c) = 3"
  by (cases c) (simp add: subtestCalls_def)

lemma CheckIstioConfigTypes_loop_traced:
  "\<exists>s' evs.
     CheckIstioConfigTypes_loop (traced store) ns cs ((s, tr), res) =
       ((s', tr @ evs), res @ subtestReports cs evs) \<and>
     CheckIstioConfigTypes_loop store ns cs (s, res) = (s', res @ subtestReports cs evs) \<and>
     map fst evs = concat (map (subtestCalls ns) cs)"
proof (induction cs arbitrary: s tr res)
  case Nil
  show ?case by simp
next
  case (Cons c cs)
  let ?h = "[expectStored, expectStored, expectStored]"
  from subtest_traced [of store ns c s tr] obtain s1 evs1 where
    a1: "subtest (traced store) ns c (s, tr) = ((s1, tr @ evs1), judge ?h evs1)"
    and a2: "subtest store ns c s = (s1, judge ?h evs1)"
    and a3: "map fst evs1 = subtestCalls ns c"
    by blast
  from a3 have len: "length evs1 = 3"
    by (metis length_map subtestCalls_length)
  from Cons.IH [of s1 "tr @ evs1" "res @ [(fst c, judge ?h evs1)]"] obtain s2 evs2 where
    b1: "CheckIstioConfigTypes_loop (traced store) ns cs
           ((s1, tr @ evs1), res @ [(fst c, judge ?h evs1)]) =
         ((s2, (tr @ evs1) @ evs2), (res @ [(fst c, judge ?h evs1)]) @ subtestReports cs evs2)"
    and b2: "CheckIstioConfigTypes_loop store ns cs (s1, res @ [(fst c, judge ?h evs1)]) =
         (s2, (res @ [(fst c, judge ?h evs1)]) @ subtestReports cs evs2)"
    and b3: "map fst evs2 = concat (map (subtestCalls ns) cs)"
    by blast
  have r: "subtestReports (c # cs) (evs1 @ evs2) =
      (fst c, judge ?h evs1) # subtestReports cs evs2"
    using len by simp
  show ?case
    using a1 a2 a3 b1 b2 b3
    by (intro exI [of _ s2] exI [of _ "evs1 @ evs2"]) (simp add: r del: subtestReports.simps)
qed

lemma map_fst_subtestReports: "map fst (subtestReports cs evs) = map fst cs"
  by (induction cs arbitrary: evs) simp_all

subsection \<open>Runs of the whole check\<close>

lemma CheckMapInvariant_run:
  assumes sch: "Schemas r s (mockGvk E) \<noteq> None"
    and o1: "range_order (createConfigs E ns n) (createOrder ord)"
    and o2: "range_order (createConfigs E ns n) (verifyOrder ord)"
  shows "\<exists>s' evs.
     CheckMapInvariant E (traced r) ns n ord ((s, tr), t) =
       Done ((s', tr @ evs), t @ judge (map snd (crudScript E ns n ord)) evs) \<and>
     CheckMapInvariant E r ns n ord (s, t) =
       Done (s', t @ judge (map snd (crudScript E ns n ord)) evs) \<and>
     map fst evs = map fst (crudScript E ns n ord)"
proof -
  from o1 have s1: "set (createOrder ord) \<subseteq> {0..<n}"
    by (simp add: range_order_createConfigs)
  from o2 have s2: "set (verifyOrder ord) \<subseteq> {0..<n}"
    by (simp add: range_order_createConfigs)
  from phase_crud [OF s1 s2, of E r ns] obtain s' evs where
    a: "deleteConfigsFromStore E (traced r) ns n
         (verifyErrorsOnInvalidOperations E (traced r) (createConfigs E ns n)
            (invalidOrder ord) (missingOrder ord)
            (verifyConfigsInStore E (traced r) (createConfigs E ns n) (verifyOrder ord)
               (createConfigsInStore (traced r) (createConfigs E ns n) (createOrder ord)
                  ((s, tr), t)))) =
        ((s', tr @ evs), t @ judge (map snd (crudScript E ns n ord)) evs)"
    and b: "deleteConfigsFromStore E r ns n
         (verifyErrorsOnInvalidOperations E r (createConfigs E ns n)
            (invalidOrder ord) (missingOrder ord)
            (verifyConfigsInStore E r (createConfigs E ns n) (verifyOrder ord)
               (createConfigsInStore r (createConfigs E ns n) (createOrder ord) (s, t)))) =
        (s', t @ judge (map snd (crudScript E ns n ord)) evs)"
    and c: "map fst evs = map fst (crudScript E ns n ord)"
    unfolding crudScript_def by (rule phaseE)
  from sch obtain x where x: "Schemas r s (mockGvk E) = Some x"
    by blast
  have "CheckMapInvariant E (traced r) ns n ord ((s, tr), t) =
      Done ((s', tr @ evs), t @ judge (map snd (crudScript E ns n ord)) evs)"
    using a x by (simp add: CheckMapInvariant_def verifyConfigTypes_def Schemas_traced Let_def)
  moreover have "CheckMapInvariant E r ns n ord (s, t) =
      Done (s', t @ judge (map snd (crudScript E ns n ord)) evs)"
    using b x by (simp add: CheckMapInvariant_def verifyConfigTypes_def Let_def)
  ultimately show ?thesis
    using c by blast
qed

lemma CheckMapInvariant_fatal:
  assumes "Schemas r s (mockGvk E) = None"
  shows "CheckMapInvariant E r ns n ord (s, t) =
     FailNow (s, t @ [Fatal_msg ''expected config mock types''])"
  using assms by (simp add: CheckMapInvariant_def verifyConfigTypes_def)

lemma range_order_length:
  assumes "range_order (createConfigs E ns n) ks"
  shows "length ks = nat n"
proof -
  from assms have d: "distinct ks" and s: "set ks = {0..<n}"
    by (simp_all add: range_order_createConfigs)
  from d have "length ks = card (set ks)"
    by (simp add: distinct_card)
  with s show ?thesis by simp
qed

lemma length_crudScript:
  assumes "range_order (createConfigs E ns n) (createOrder ord)"
    and "range_order (createConfigs E ns n) (verifyOrder ord)"
  shows "length (crudScript E ns n ord) = 3 * nat n + 9"
  using range_order_length [OF assms(1)] range_order_length [OF assms(2)]
  by (simp add: crudScript_def createScript_def verifyScript_def negativeScript_def
      deleteScript_def)

lemma sample_schema: "Schemas (memStore (schemasOf sampleCollections)) s (mockGvk sampleCollections) \<noteq> None"
  by (simp add: memStore_def findSchema_def schemasOf_def sampleCollections_def mockGvk_def)

lemma range_order_2: "range_order (createConfigs E ns 2) [1, 0]"
  by (auto simp: range_order_createConfigs)

lemma range_order_2': "range_order (createConfigs E ns 2) [0, 1]"
  by (auto simp: range_order_createConfigs)

lemma range_order_1: "range_order (createConfigs E ns 1) [0]"
  by (auto simp: range_order_createConfigs)

section \<open>Evaluation on the sample inputs\<close>

lemma itoa_0: "itoa 0 = ''0''"
  by (simp add: itoa_def utoa.simps digit_def)

lemma itoa_1: "itoa 1 = ''1''"
  by (simp add: itoa_def utoa.simps digit_def)

lemmas harness_defs =
  CheckMapInvariant_def verifyConfigTypes_def createConfigsInStore_def verifyConfigsInStore_def
  verifyErrorsOnInvalidOperations_def assertError_def verifyMissingElements_def
  deleteConfigsFromStore_def deleteConfigsFromStore_loop.simps getFirstRevision_def
  range_entries_Nil range_entries_Cons createConfigs_apply Make_def Compare_def
  invalid_def missing_def zeroConfig_def zeroGvk_def zeroTime_def mockGvk_def Let_def
  itoa_0 itoa_1

lemmas sample_defs =
  memStore_def memCreate_def memUpdate_def memDelete_def memMatch_def findSchema_def
  schemasOf_def sampleCollections_def clusterCollections_def sampleSchema_def

section \<open>The claims\<close>

text \<open>
  C8. For every namespace and every index \<open>i \<ge> 0\<close>, \<open>Make\<close> returns the resource of
  the mock kind named \<open>mock-config\<close> followed by \<open>i\<close> in decimal, in the given
  namespace, with the label \<open>key\<close> and the annotation \<open>annotationkey\<close> set to that
  name, and a payload whose \<open>Key\<close> is the name and whose single pair holds \<open>i\<close> as a
  decimal string: the string is made of digits and reads back as \<open>i\<close>. Different
  indices give different names. \<open>createConfigs\<close> maps exactly the indices
  \<open>0 .. n - 1\<close>, each to \<open>Make\<close> of it; both are functions of their arguments alone.
\<close>

theorem Make_createConfigs_fixtures:
  assumes "0 \<le> i"
  shows "Make E ns i =
      \<lparr>GroupVersionKind = mockGvk E,
       Name = ''mock-config'' @ itoa i,
       Namespace = ns,
       Labels = Some [''key'' \<mapsto> ''mock-config'' @ itoa i],
       Annotations = Some [''annotationkey'' \<mapsto> ''mock-config'' @ itoa i],
       ResourceVersion = [],
       CreationTimestamp = zeroTime,
       Spec = MockConfigPtr
         \<lparr>Key = ''mock-config'' @ itoa i,
          Pairs = Some [\<lparr>PKey = ''key'', PValue = itoa i\<rparr>]\<rparr>\<rparr> \<and>
    set (itoa i) \<subseteq> set ''0123456789'' \<and>
    atoi (itoa i) = i \<and>
    (\<forall>j. j \<noteq> i \<longrightarrow> Name (Make E ns j) \<noteq> Name (Make E ns i)) \<and>
    createConfigs E ns n = (\<lambda>k. if 0 \<le> k \<and> k < n then Some (Make E ns k) else None)"
proof -
  have "createConfigs E ns n = (\<lambda>k. if 0 \<le> k \<and> k < n then Some (Make E ns k) else None)"
    by (rule ext) (rule createConfigs_apply)
  moreover have "\<forall>j. j \<noteq> i \<longrightarrow> Name (Make E ns j) \<noteq> Name (Make E ns i)"
    using Name_Make_inj by blast
  moreover note itoa_digits [OF assms] atoi_itoa [of i]
  ultimately show ?thesis
    by (simp add: Make_def Let_def)
qed

theorem Make_createConfigs_fixtures_witness:
  "(0::int) \<le> 3 \<and>
   Name (Make sampleCollections ''ns1'' 3) = ''mock-config3'' \<and>
   Spec (Make sampleCollections ''ns1'' 3) =
     MockConfigPtr \<lparr>Key = ''mock-config3'', Pairs = Some [\<lparr>PKey = ''key'', PValue = ''3''\<rparr>]\<rparr> \<and>
   atoi ''3'' = 3 \<and>
   Name (Make sampleCollections ''ns1'' 4) \<noteq> Name (Make sampleCollections ''ns1'' 3) \<and>
   map (\<lambda>k. map_option Name (createConfigs sampleCollections ''ns1'' 5 k)) [0, 1, 2, 3, 4, 5] =
     [Some ''mock-config0'', Some ''mock-config1'', Some ''mock-config2'',
      Some ''mock-config3'', Some ''mock-config4'', None]"
proof -
  have h: "(0::int) \<le> 3" by simp
  have d: "itoa 0 = ''0''" "itoa 1 = ''1''" "itoa 2 = ''2''" "itoa 3 = ''3''" "itoa 4 = ''4''"
    by (simp_all add: itoa_def utoa.simps digit_def)
  from Make_createConfigs_fixtures [OF h, of sampleCollections "''ns1''" 5]
  show ?thesis
    by (simp add: d Name_Make)
qed

text \<open>
  C2, as stated, has \<open>Compare\<close> decided by kind, name, namespace, labels, annotations
  and payload alone. Two resources that agree on all six, and on version and creation
  time as well, and differ in a further field are not equal for \<open>Compare\<close>.
\<close>

theorem Compare_depends_on_further_field:
  "GroupVersionKind (inDomain ''cluster.local'') = GroupVersionKind (inDomain ''svc.local'') \<and>
   Name (inDomain ''cluster.local'') = Name (inDomain ''svc.local'') \<and>
   Namespace (inDomain ''cluster.local'') = Namespace (inDomain ''svc.local'') \<and>
   Labels (inDomain ''cluster.local'') = Labels (inDomain ''svc.local'') \<and>
   Annotations (inDomain ''cluster.local'') = Annotations (inDomain ''svc.local'') \<and>
   Spec (inDomain ''cluster.local'') = Spec (inDomain ''svc.local'') \<and>
   \<not> Compare (inDomain ''cluster.local'') (inDomain ''svc.local'')"
  by (simp add: inDomain_def Compare_def Let_def)

text \<open>
  C2, amended. \<open>Compare\<close> holds exactly when the two resources are equal once the
  version and the creation time of both are set to their zero values. It ignores these
  two fields and no other: it gives the same answer whatever version and creation time
  either resource has, and it holds exactly when the resources agree on kind, name,
  namespace, labels, annotations, payload and every further field of the resource.
\<close>

theorem Compare_ignores_version_and_time:
  fixes a b :: "'a Config_scheme"
  shows "(Compare a b \<longleftrightarrow>
      a\<lparr>ResourceVersion := [], CreationTimestamp := zeroTime\<rparr> =
      b\<lparr>ResourceVersion := [], CreationTimestamp := zeroTime\<rparr>) \<and>
   (Compare a b \<longleftrightarrow>
      GroupVersionKind a = GroupVersionKind b \<and> Name a = Name b \<and>
      Namespace a = Namespace b \<and> Labels a = Labels b \<and>
      Annotations a = Annotations b \<and> Spec a = Spec b \<and>
      Config.more a = Config.more b) \<and>
   Compare (a\<lparr>ResourceVersion := v, CreationTimestamp := ts\<rparr>) b = Compare a b \<and>
   Compare a (b\<lparr>ResourceVersion := v, CreationTimestamp := ts\<rparr>) = Compare a b"
  by (cases a, cases b) (auto simp: Compare_def Let_def)

theorem Compare_ignores_version_and_time_witness:
  "Compare (Make sampleCollections ''ns1'' 0)
     ((Make sampleCollections ''ns1'' 0)
        \<lparr>ResourceVersion := ''v1'', CreationTimestamp := \<lparr>wall = 7, ext = 1, loc = None\<rparr>\<rparr>) \<and>
   \<not> Compare (Make sampleCollections ''ns1'' 0) (Make sampleCollections ''ns2'' 0) \<and>
   \<not> Compare (Make sampleCollections ''ns1'' 0)
       ((Make sampleCollections ''ns1'' 0)\<lparr>Labels := None\<rparr>) \<and>
   Compare (inDomain ''cluster.local'')
     ((inDomain ''cluster.local'')
        \<lparr>ResourceVersion := ''v1'', CreationTimestamp := \<lparr>wall = 7, ext = 1, loc = None\<rparr>\<rparr>) \<and>
   \<not> Compare (inDomain ''cluster.local'')
       ((inDomain ''cluster.local'')\<lparr>Domain := ''svc.local''\<rparr>)"
proof -
  have a: "Compare (Make sampleCollections ''ns1'' 0)
     ((Make sampleCollections ''ns1'' 0)
        \<lparr>ResourceVersion := ''v1'', CreationTimestamp := \<lparr>wall = 7, ext = 1, loc = None\<rparr>\<rparr>)"
    using Compare_ignores_version_and_time [where a = "Make sampleCollections ''ns1'' 0"
      and b = "Make sampleCollections ''ns1'' 0" and v = "''v1''"
      and ts = "\<lparr>wall = 7, ext = 1, loc = None\<rparr>"]
    by simp
  have b: "\<not> Compare (Make sampleCollections ''ns1'' 0) (Make sampleCollections ''ns2'' 0)"
    using Compare_ignores_version_and_time [of "Make sampleCollections ''ns1'' 0"
      "Make sampleCollections ''ns2'' 0"]
    by (simp add: Make_def Let_def)
  have c: "\<not> Compare (Make sampleCollections ''ns1'' 0)
       ((Make sampleCollections ''ns1'' 0)\<lparr>Labels := None\<rparr>)"
    using Compare_ignores_version_and_time [of "Make sampleCollections ''ns1'' 0"
      "(Make sampleCollections ''ns1'' 0)\<lparr>Labels := None\<rparr>"]
    by (simp add: Make_def Let_def)
  have d: "Compare (inDomain ''cluster.local'')
     ((inDomain ''cluster.local'')
        \<lparr>ResourceVersion := ''v1'', CreationTimestamp := \<lparr>wall = 7, ext = 1, loc = None\<rparr>\<rparr>)"
    using Compare_ignores_version_and_time [where a = "inDomain ''cluster.local''"
      and b = "inDomain ''cluster.local''" and v = "''v1''"
      and ts = "\<lparr>wall = 7, ext = 1, loc = None\<rparr>"]
    by simp
  have e: "\<not> Compare (inDomain ''cluster.local'')
       ((inDomain ''cluster.local'')\<lparr>Domain := ''svc.local''\<rparr>)"
    using Compare_ignores_version_and_time [of "inDomain ''cluster.local''"
      "(inDomain ''cluster.local'')\<lparr>Domain := ''svc.local''\<rparr>"]
    by (simp add: inDomain_def)
  from a b c d e show ?thesis
    by (intro conjI)
qed

text \<open>
  C1. For the fixtures built for the tested namespace, taken in any order that lists
  each of them once, \<open>verifyConfigsInStore\<close> calls \<open>Get\<close> once per fixture, with the
  mock kind, the fixture's name and its namespace; whatever the replies, it goes
  through all fixtures, and its log grows by one report for each reply that is null or
  that \<open>Compare\<close> rejects, and by nothing for the other replies.
\<close>

theorem verifyConfigsInStore_read_back:
  assumes "range_order (createConfigs E ns n) ks"
  shows "(\<exists>s' evs.
      verifyConfigsInStore E (traced r) (createConfigs E ns n) ks ((s, []), t) =
        ((s', evs), t @ judge (map (\<lambda>k. expectEqual (Make E ns k)) ks) evs) \<and>
      verifyConfigsInStore E r (createConfigs E ns n) ks (s, t) =
        (s', t @ judge (map (\<lambda>k. expectEqual (Make E ns k)) ks) evs) \<and>
      map fst evs =
        map (\<lambda>k. Get_call (mockGvk E) (Name (Make E ns k)) (Namespace (Make E ns k))) ks) \<and>
    distinct ks \<and> set ks = {0..<n} \<and>
    (\<forall>elt c v. expectEqual elt (c, Got v) =
       (if v = None \<or> \<not> Compare elt (the v) then [Errorf_wanted elt v] else []))"
proof -
  from assms have d: "distinct ks" and s: "set ks = {0..<n}"
    by (simp_all add: range_order_createConfigs)
  from s have sub: "set ks \<subseteq> {0..<n}" by simp
  have sc1: "map snd (verifyScript E ns ks) = map (\<lambda>k. expectEqual (Make E ns k)) ks"
    by (simp add: verifyScript_def comp_def)
  have sc2: "map fst (verifyScript E ns ks) =
      map (\<lambda>k. Get_call (mockGvk E) (Name (Make E ns k)) (Namespace (Make E ns k))) ks"
    by (simp add: verifyScript_def comp_def Name_Make Namespace_Make)
  from phase_verifyConfigsInStore [OF sub, of E r ns] obtain s' evs where
    "verifyConfigsInStore E (traced r) (createConfigs E ns n) ks ((s, []), t) =
       ((s', [] @ evs), t @ judge (map snd (verifyScript E ns ks)) evs)"
    "verifyConfigsInStore E r (createConfigs E ns n) ks (s, t) =
       (s', t @ judge (map snd (verifyScript E ns ks)) evs)"
    "map fst evs = map fst (verifyScript E ns ks)"
    by (rule phaseE)
  then have "\<exists>s' evs.
      verifyConfigsInStore E (traced r) (createConfigs E ns n) ks ((s, []), t) =
        ((s', evs), t @ judge (map (\<lambda>k. expectEqual (Make E ns k)) ks) evs) \<and>
      verifyConfigsInStore E r (createConfigs E ns n) ks (s, t) =
        (s', t @ judge (map (\<lambda>k. expectEqual (Make E ns k)) ks) evs) \<and>
      map fst evs =
        map (\<lambda>k. Get_call (mockGvk E) (Name (Make E ns k)) (Namespace (Make E ns k))) ks"
    unfolding sc1 sc2 by (intro exI [of _ s'] exI [of _ evs]) simp
  moreover have "\<forall>elt c v. expectEqual elt (c, Got v) =
       (if v = None \<or> \<not> Compare elt (the v) then [Errorf_wanted elt v] else [])"
    by (auto simp: expectEqual_def split: option.split)
  ultimately show ?thesis
    using d s by blast
qed

theorem verifyConfigsInStore_read_back_witness:
  "range_order (createConfigs sampleCollections ''ns1'' 2) [1, 0] \<and>
   (\<exists>s' evs.
      verifyConfigsInStore sampleCollections (traced (memStore (schemasOf sampleCollections)))
        (createConfigs sampleCollections ''ns1'' 2) [1, 0]
        (([(Make sampleCollections ''ns1'' 0)\<lparr>ResourceVersion := ''v1''\<rparr>], []), []) =
        ((s', evs), [] @ judge (map (\<lambda>k. expectEqual (Make sampleCollections ''ns1'' k)) [1, 0]) evs) \<and>
      map fst evs =
        [Get_call (mockGvk sampleCollections) ''mock-config1'' ''ns1'',
         Get_call (mockGvk sampleCollections) ''mock-config0'' ''ns1'']) \<and>
   verifyConfigsInStore sampleCollections (memStore (schemasOf sampleCollections))
     (createConfigs sampleCollections ''ns1'' 2) [1, 0]
     ([(Make sampleCollections ''ns1'' 0)\<lparr>ResourceVersion := ''v1''\<rparr>], []) =
     ([(Make sampleCollections ''ns1'' 0)\<lparr>ResourceVersion := ''v1''\<rparr>],
      [Errorf_wanted (Make sampleCollections ''ns1'' 1) None])"
proof -
  have h: "range_order (createConfigs sampleCollections ''ns1'' 2) [1, 0]"
    by (rule range_order_2)
  have e: "verifyConfigsInStore sampleCollections (memStore (schemasOf sampleCollections))
     (createConfigs sampleCollections ''ns1'' 2) [1, 0]
     ([(Make sampleCollections ''ns1'' 0)\<lparr>ResourceVersion := ''v1''\<rparr>], []) =
     ([(Make sampleCollections ''ns1'' 0)\<lparr>ResourceVersion := ''v1''\<rparr>],
      [Errorf_wanted (Make sampleCollections ''ns1'' 1) None])"
    by (simp add: harness_defs sample_defs)
  from verifyConfigsInStore_read_back [OF h,
      of "memStore (schemasOf sampleCollections)"
         "[(Make sampleCollections ''ns1'' 0)\<lparr>ResourceVersion := ''v1''\<rparr>]" "[]"]
  have "\<exists>s' evs.
      verifyConfigsInStore sampleCollections (traced (memStore (schemasOf sampleCollections)))
        (createConfigs sampleCollections ''ns1'' 2) [1, 0]
        (([(Make sampleCollections ''ns1'' 0)\<lparr>ResourceVersion := ''v1''\<rparr>], []), []) =
        ((s', evs), [] @ judge (map (\<lambda>k. expectEqual (Make sampleCollections ''ns1'' k)) [1, 0]) evs) \<and>
      verifyConfigsInStore sampleCollections (memStore (schemasOf sampleCollections))
        (createConfigs sampleCollections ''ns1'' 2) [1, 0]
        ([(Make sampleCollections ''ns1'' 0)\<lparr>ResourceVersion := ''v1''\<rparr>], []) =
        (s', [] @ judge (map (\<lambda>k. expectEqual (Make sampleCollections ''ns1'' k)) [1, 0]) evs) \<and>
      map fst evs =
        map (\<lambda>k. Get_call (mockGvk sampleCollections) (Name (Make sampleCollections ''ns1'' k))
               (Namespace (Make sampleCollections ''ns1'' k))) [1, 0]"
    by (rule conjunct1)
  then obtain s' evs where
    a: "verifyConfigsInStore sampleCollections (traced (memStore (schemasOf sampleCollections)))
        (createConfigs sampleCollections ''ns1'' 2) [1, 0]
        (([(Make sampleCollections ''ns1'' 0)\<lparr>ResourceVersion := ''v1''\<rparr>], []), []) =
        ((s', evs), [] @ judge (map (\<lambda>k. expectEqual (Make sampleCollections ''ns1'' k)) [1, 0]) evs)"
    and c: "map fst evs =
        map (\<lambda>k. Get_call (mockGvk sampleCollections) (Name (Make sampleCollections ''ns1'' k))
               (Namespace (Make sampleCollections ''ns1'' k))) [1, 0]"
    by blast
  from c have "map fst evs =
        [Get_call (mockGvk sampleCollections) ''mock-config1'' ''ns1'',
         Get_call (mockGvk sampleCollections) ''mock-config0'' ''ns1'']"
    by (simp add: Name_Make Namespace_Make itoa_0 itoa_1)
  with a have "\<exists>s' evs.
      verifyConfigsInStore sampleCollections (traced (memStore (schemasOf sampleCollections)))
        (createConfigs sampleCollections ''ns1'' 2) [1, 0]
        (([(Make sampleCollections ''ns1'' 0)\<lparr>ResourceVersion := ''v1''\<rparr>], []), []) =
        ((s', evs), [] @ judge (map (\<lambda>k. expectEqual (Make sampleCollections ''ns1'' k)) [1, 0]) evs) \<and>
      map fst evs =
        [Get_call (mockGvk sampleCollections) ''mock-config1'' ''ns1'',
         Get_call (mockGvk sampleCollections) ''mock-config0'' ''ns1'']"
    by (intro exI [of _ s'] exI [of _ evs] conjI)
  with h e show ?thesis
    by blast
qed

text \<open>
  C3. \<open>verifyErrorsOnInvalidOperations\<close> submits three resources, each first to
  \<open>Create\<close> and then to \<open>Update\<close>: the zero-value resource, the resource named
  \<open>invalid\<close> and the resource named \<open>missing\<close>, the last two of the mock kind and with
  the version that \<open>getFirstRevision\<close> reads from a fixture; the two checks of absence
  follow. Neither name is the name of a fixture. Each of the six calls that returns no
  error adds one report to the log, a call that returns an error adds none, and all
  calls are made whatever the replies.
\<close>

theorem verifyErrorsOnInvalidOperations_rejections:
  "(\<exists>s' evs.
      verifyErrorsOnInvalidOperations E (traced r) elts ks1 ks2 ((s, []), t) =
        ((s', evs),
         t @ judge ([expectError, expectError, expectError, expectError, expectError, expectError,
            expectNothing, expectNothing]) evs) \<and>
      verifyErrorsOnInvalidOperations E r elts ks1 ks2 (s, t) =
        (s', t @ judge ([expectError, expectError, expectError, expectError, expectError, expectError,
            expectNothing, expectNothing]) evs) \<and>
      map fst evs =
        [Create_call zeroConfig, Update_call zeroConfig,
         Create_call (invalid E (getFirstRevision elts ks1)),
         Update_call (invalid E (getFirstRevision elts ks1)),
         Create_call (missing E (getFirstRevision elts ks2)),
         Update_call (missing E (getFirstRevision elts ks2)),
         List_call (mockGvk E) [], Get_call (mockGvk E) ''missing'' []]) \<and>
   (\<forall>rv. GroupVersionKind (invalid E rv) = mockGvk E \<and> Name (invalid E rv) = ''invalid'' \<and>
      ResourceVersion (invalid E rv) = rv \<and>
      GroupVersionKind (missing E rv) = mockGvk E \<and> Name (missing E rv) = ''missing'' \<and>
      ResourceVersion (missing E rv) = rv \<and>
      (\<forall>ns i. Name (invalid E rv) \<noteq> Name (Make E ns i) \<and>
         Name (missing E rv) \<noteq> Name (Make E ns i))) \<and>
   (\<forall>k ks elt. elts k = Some elt \<longrightarrow> getFirstRevision elts (k # ks) = ResourceVersion elt) \<and>
   (\<forall>cfg c e.
      expectError (Create_call cfg, Wrote c None) =
        [Error_msg ''expected error posting invalid object''] \<and>
      expectError (Update_call cfg, Wrote c None) =
        [Error_msg ''expected error updating invalid object''] \<and>
      expectError (Create_call cfg, Wrote c (Some e)) = [] \<and>
      expectError (Update_call cfg, Wrote c (Some e)) = [])"
proof -
  let ?sc = "negativeScript E (getFirstRevision elts ks1) (getFirstRevision elts ks2)"
  have sc1: "map snd ?sc = [expectError, expectError, expectError, expectError, expectError, expectError,
            expectNothing, expectNothing]"
    by (simp add: negativeScript_def)
  from phase_verifyErrorsOnInvalidOperations [of E r elts ks1 ks2] obtain s' evs where
    a: "verifyErrorsOnInvalidOperations E (traced r) elts ks1 ks2 ((s, []), t) =
       ((s', [] @ evs), t @ judge (map snd ?sc) evs)"
    and b: "verifyErrorsOnInvalidOperations E r elts ks1 ks2 (s, t) =
       (s', t @ judge (map snd ?sc) evs)"
    and c: "map fst evs = map fst ?sc"
    by (rule phaseE)
  from c have d: "map fst evs =
        [Create_call zeroConfig, Update_call zeroConfig,
         Create_call (invalid E (getFirstRevision elts ks1)),
         Update_call (invalid E (getFirstRevision elts ks1)),
         Create_call (missing E (getFirstRevision elts ks2)),
         Update_call (missing E (getFirstRevision elts ks2)),
         List_call (mockGvk E) [], Get_call (mockGvk E) ''missing'' []]"
    by (simp add: negativeScript_def)
  have run: "\<exists>s' evs.
      verifyErrorsOnInvalidOperations E (traced r) elts ks1 ks2 ((s, []), t) =
        ((s', evs),
         t @ judge ([expectError, expectError, expectError, expectError, expectError, expectError,
            expectNothing, expectNothing]) evs) \<and>
      verifyErrorsOnInvalidOperations E r elts ks1 ks2 (s, t) =
        (s', t @ judge ([expectError, expectError, expectError, expectError, expectError, expectError,
            expectNothing, expectNothing]) evs) \<and>
      map fst evs =
        [Create_call zeroConfig, Update_call zeroConfig,
         Create_call (invalid E (getFirstRevision elts ks1)),
         Update_call (invalid E (getFirstRevision elts ks1)),
         Create_call (missing E (getFirstRevision elts ks2)),
         Update_call (missing E (getFirstRevision elts ks2)),
         List_call (mockGvk E) [], Get_call (mockGvk E) ''missing'' []]"
    using a b d unfolding sc1
    by (intro exI [of _ s'] exI [of _ evs]) simp
  have ids: "\<forall>rv. GroupVersionKind (invalid E rv) = mockGvk E \<and> Name (invalid E rv) = ''invalid'' \<and>
      ResourceVersion (invalid E rv) = rv \<and>
      GroupVersionKind (missing E rv) = mockGvk E \<and> Name (missing E rv) = ''missing'' \<and>
      ResourceVersion (missing E rv) = rv \<and>
      (\<forall>ns i. Name (invalid E rv) \<noteq> Name (Make E ns i) \<and>
         Name (missing E rv) \<noteq> Name (Make E ns i))"
    by (simp add: invalid_def missing_def Name_Make)
  have first: "\<forall>k ks elt. elts k = Some elt \<longrightarrow>
      getFirstRevision elts (k # ks) = ResourceVersion elt"
    by (simp add: getFirstRevision_def range_entries_Cons)
  have ex: "\<forall>cfg c e.
      expectError (Create_call cfg, Wrote c None) =
        [Error_msg ''expected error posting invalid object''] \<and>
      expectError (Update_call cfg, Wrote c None) =
        [Error_msg ''expected error updating invalid object''] \<and>
      expectError (Create_call cfg, Wrote c (Some e)) = [] \<and>
      expectError (Update_call cfg, Wrote c (Some e)) = []"
    by (simp add: expectError_def)
  from run ids first ex show ?thesis
    by (intro conjI)
qed


theorem verifyErrorsOnInvalidOperations_rejections_witness:
  "createConfigs sampleCollections ''ns1'' 1 0 = Some (Make sampleCollections ''ns1'' 0) \<and>
   getFirstRevision (createConfigs sampleCollections ''ns1'' 1) [0] =
     ResourceVersion (Make sampleCollections ''ns1'' 0) \<and>
   (\<exists>s' evs.
      verifyErrorsOnInvalidOperations sampleCollections
        (traced (memStore (schemasOf sampleCollections)))
        (createConfigs sampleCollections ''ns1'' 1) [0] [0]
        (([(Make sampleCollections ''ns1'' 0)\<lparr>ResourceVersion := ''v1''\<rparr>], []), []) =
        ((s', evs),
         [] @ judge [expectError, expectError, expectError, expectError, expectError, expectError,
            expectNothing, expectNothing] evs) \<and>
      map fst evs =
        [Create_call zeroConfig, Update_call zeroConfig,
         Create_call (invalid sampleCollections
           (getFirstRevision (createConfigs sampleCollections ''ns1'' 1) [0])),
         Update_call (invalid sampleCollections
           (getFirstRevision (createConfigs sampleCollections ''ns1'' 1) [0])),
         Create_call (missing sampleCollections
           (getFirstRevision (createConfigs sampleCollections ''ns1'' 1) [0])),
         Update_call (missing sampleCollections
           (getFirstRevision (createConfigs sampleCollections ''ns1'' 1) [0])),
         List_call (mockGvk sampleCollections) [],
         Get_call (mockGvk sampleCollections) ''missing'' []]) \<and>
   verifyErrorsOnInvalidOperations sampleCollections (memStore (schemasOf sampleCollections))
     (createConfigs sampleCollections ''ns1'' 1) [0] [0]
     ([(Make sampleCollections ''ns1'' 0)\<lparr>ResourceVersion := ''v1''\<rparr>], []) =
     ([(Make sampleCollections ''ns1'' 0)\<lparr>ResourceVersion := ''v1''\<rparr>], []) \<and>
   snd (verifyErrorsOnInvalidOperations sampleCollections
     (memStore [(sampleSchema ''MockConfig'')\<lparr>IsClusterScoped := True\<rparr>])
     (createConfigs sampleCollections ''ns1'' 1) [0] [0] ([], [])) =
     [Error_msg ''expected error posting invalid object'',
      Error_msg ''expected error posting invalid object'',
      Error_msg ''unexpected objects for missing type'',
      Error_msg ''unexpected configuration object found'']"
proof -
  note T = verifyErrorsOnInvalidOperations_rejections [of sampleCollections
      "memStore (schemasOf sampleCollections)" "createConfigs sampleCollections ''ns1'' 1"
      "[0]" "[0]" "[(Make sampleCollections ''ns1'' 0)\<lparr>ResourceVersion := ''v1''\<rparr>]" "[]"]
  have h: "createConfigs sampleCollections ''ns1'' 1 0 = Some (Make sampleCollections ''ns1'' 0)"
    by (simp add: createConfigs_apply)
  from T have "\<forall>k ks elt. createConfigs sampleCollections ''ns1'' 1 k = Some elt \<longrightarrow>
      getFirstRevision (createConfigs sampleCollections ''ns1'' 1) (k # ks) = ResourceVersion elt"
    by (elim conjE)
  with h have f: "getFirstRevision (createConfigs sampleCollections ''ns1'' 1) [0] =
     ResourceVersion (Make sampleCollections ''ns1'' 0)"
    by (elim allE [of _ 0] allE [of _ "[]"] allE [of _ "Make sampleCollections ''ns1'' 0"] impE)
  from T obtain s' evs where
    a: "verifyErrorsOnInvalidOperations sampleCollections
        (traced (memStore (schemasOf sampleCollections)))
        (createConfigs sampleCollections ''ns1'' 1) [0] [0]
        (([(Make sampleCollections ''ns1'' 0)\<lparr>ResourceVersion := ''v1''\<rparr>], []), []) =
        ((s', evs),
         [] @ judge [expectError, expectError, expectError, expectError, expectError, expectError,
            expectNothing, expectNothing] evs)"
    and c: "map fst evs =
        [Create_call zeroConfig, Update_call zeroConfig,
         Create_call (invalid sampleCollections
           (getFirstRevision (createConfigs sampleCollections ''ns1'' 1) [0])),
         Update_call (invalid sampleCollections
           (getFirstRevision (createConfigs sampleCollections ''ns1'' 1) [0])),
         Create_call (missing sampleCollections
           (getFirstRevision (createConfigs sampleCollections ''ns1'' 1) [0])),
         Update_call (missing sampleCollections
           (getFirstRevision (createConfigs sampleCollections ''ns1'' 1) [0])),
         List_call (mockGvk sampleCollections) [],
         Get_call (mockGvk sampleCollections) ''missing'' []]"
    by (elim conjE exE)
  have run: "\<exists>s' evs.
      verifyErrorsOnInvalidOperations sampleCollections
        (traced (memStore (schemasOf sampleCollections)))
        (createConfigs sampleCollections ''ns1'' 1) [0] [0]
        (([(Make sampleCollections ''ns1'' 0)\<lparr>ResourceVersion := ''v1''\<rparr>], []), []) =
        ((s', evs),
         [] @ judge [expectError, expectError, expectError, expectError, expectError, expectError,
            expectNothing, expectNothing] evs) \<and>
      map fst evs =
        [Create_call zeroConfig, Update_call zeroConfig,
         Create_call (invalid sampleCollections
           (getFirstRevision (createConfigs sampleCollections ''ns1'' 1) [0])),
         Update_call (invalid sampleCollections
           (getFirstRevision (createConfigs sampleCollections ''ns1'' 1) [0])),
         Create_call (missing sampleCollections
           (getFirstRevision (createConfigs sampleCollections ''ns1'' 1) [0])),
         Update_call (missing sampleCollections
           (getFirstRevision (createConfigs sampleCollections ''ns1'' 1) [0])),
         List_call (mockGvk sampleCollections) [],
         Get_call (mockGvk sampleCollections) ''missing'' []]"
    using a c by (intro exI [of _ s'] exI [of _ evs] conjI)
  have e1: "verifyErrorsOnInvalidOperations sampleCollections
     (memStore (schemasOf sampleCollections))
     (createConfigs sampleCollections ''ns1'' 1) [0] [0]
     ([(Make sampleCollections ''ns1'' 0)\<lparr>ResourceVersion := ''v1''\<rparr>], []) =
     ([(Make sampleCollections ''ns1'' 0)\<lparr>ResourceVersion := ''v1''\<rparr>], [])"
    by (simp add: harness_defs sample_defs)
  have e2: "snd (verifyErrorsOnInvalidOperations sampleCollections
     (memStore [(sampleSchema ''MockConfig'')\<lparr>IsClusterScoped := True\<rparr>])
     (createConfigs sampleCollections ''ns1'' 1) [0] [0] ([], [])) =
     [Error_msg ''expected error posting invalid object'',
      Error_msg ''expected error posting invalid object'',
      Error_msg ''unexpected objects for missing type'',
      Error_msg ''unexpected configuration object found'']"
    by (simp add: harness_defs sample_defs)
  from h f run e1 e2 show ?thesis
    by (intro conjI)
qed

text \<open>
  C5. \<open>deleteConfigsFromStore\<close>, the last step of \<open>CheckMapInvariant\<close>, calls
  \<open>Delete\<close> once for each index \<open>0 .. n - 1\<close>, in this order, with the mock kind, the
  name \<open>Make\<close> gives the index and the tested namespace; the names are pairwise
  different. A call that returns an error adds one report and the loop goes on. After
  the last \<open>Delete\<close> it calls \<open>List\<close> for the mock kind and the tested namespace, and a
  list that is not empty adds one report.
\<close>

theorem deleteConfigsFromStore_deletes_all:
  "(\<exists>s' evs.
      deleteConfigsFromStore E (traced r) ns n ((s, []), t) =
        ((s', evs), t @ judge (map (\<lambda>i. expectNoError) [0..n - 1] @ [expectEmptied]) evs) \<and>
      deleteConfigsFromStore E r ns n (s, t) =
        (s', t @ judge (map (\<lambda>i. expectNoError) [0..n - 1] @ [expectEmptied]) evs) \<and>
      map fst evs =
        map (\<lambda>i. Delete_call (mockGvk E) (Name (Make E ns i)) ns None) [0..n - 1] @
        [List_call (mockGvk E) ns]) \<and>
   distinct (map (\<lambda>i. Delete_call (mockGvk E) (Name (Make E ns i)) ns None) [0..n - 1]) \<and>
   (\<forall>i. Name (Make E ns i) = ''mock-config'' @ itoa i) \<and>
   (\<forall>c e l x. expectNoError (c, Deleted (Some e)) = [Error_err e] \<and>
      expectNoError (c, Deleted None) = [] \<and>
      expectEmptied (c, Listed []) = [] \<and>
      expectEmptied (c, Listed (x # l)) = [Errorf_wanted0 (length (x # l)) (x # l)]) \<and>
   (\<forall>ord st. CheckMapInvariant E r ns n ord st =
      (case verifyConfigTypes E r st of
         FailNow st' \<Rightarrow> FailNow st'
       | Done st0 \<Rightarrow>
           Done (deleteConfigsFromStore E r ns n
             (verifyErrorsOnInvalidOperations E r (createConfigs E ns n)
                (invalidOrder ord) (missingOrder ord)
                (verifyConfigsInStore E r (createConfigs E ns n) (verifyOrder ord)
                   (createConfigsInStore r (createConfigs E ns n) (createOrder ord) st0))))))"
proof -
  have sc1: "map snd (deleteScript E ns n) =
      map (\<lambda>i. expectNoError) [0..n - 1] @ [expectEmptied]"
    by (simp add: deleteScript_def comp_def)
  have sc2: "map fst (deleteScript E ns n) =
      map (\<lambda>i. Delete_call (mockGvk E) (Name (Make E ns i)) ns None) [0..n - 1] @
        [List_call (mockGvk E) ns]"
    by (simp add: deleteScript_def comp_def Name_Make)
  from phase_deleteConfigsFromStore [of E r ns n] obtain s' evs where
    a: "deleteConfigsFromStore E (traced r) ns n ((s, []), t) =
       ((s', [] @ evs), t @ judge (map snd (deleteScript E ns n)) evs)"
    and b: "deleteConfigsFromStore E r ns n (s, t) =
       (s', t @ judge (map snd (deleteScript E ns n)) evs)"
    and c: "map fst evs = map fst (deleteScript E ns n)"
    by (rule phaseE)
  have run: "\<exists>s' evs.
      deleteConfigsFromStore E (traced r) ns n ((s, []), t) =
        ((s', evs), t @ judge (map (\<lambda>i. expectNoError) [0..n - 1] @ [expectEmptied]) evs) \<and>
      deleteConfigsFromStore E r ns n (s, t) =
        (s', t @ judge (map (\<lambda>i. expectNoError) [0..n - 1] @ [expectEmptied]) evs) \<and>
      map fst evs =
        map (\<lambda>i. Delete_call (mockGvk E) (Name (Make E ns i)) ns None) [0..n - 1] @
        [List_call (mockGvk E) ns]"
    using a b c unfolding sc1 sc2
    by (intro exI [of _ s'] exI [of _ evs]) simp
  have "inj (\<lambda>i. Delete_call (mockGvk E) (Name (Make E ns i)) ns None)"
    by (rule injI) (simp add: Name_Make itoa_inj)
  then have dist: "distinct (map (\<lambda>i. Delete_call (mockGvk E) (Name (Make E ns i)) ns None)
      [0..n - 1])"
    by (simp add: distinct_map inj_on_def inj_def)
  have names: "\<forall>i. Name (Make E ns i) = ''mock-config'' @ itoa i"
    by (simp add: Name_Make)
  have ex: "\<forall>c e l x. expectNoError (c, Deleted (Some e)) = [Error_err e] \<and>
      expectNoError (c, Deleted None) = [] \<and>
      expectEmptied (c, Listed []) = [] \<and>
      expectEmptied (c, Listed (x # l)) = [Errorf_wanted0 (length (x # l)) (x # l)]"
    by (simp add: expectNoError_def expectEmptied_def)
  have last: "\<forall>ord st. CheckMapInvariant E r ns n ord st =
      (case verifyConfigTypes E r st of
         FailNow st' \<Rightarrow> FailNow st'
       | Done st0 \<Rightarrow>
           Done (deleteConfigsFromStore E r ns n
             (verifyErrorsOnInvalidOperations E r (createConfigs E ns n)
                (invalidOrder ord) (missingOrder ord)
                (verifyConfigsInStore E r (createConfigs E ns n) (verifyOrder ord)
                   (createConfigsInStore r (createConfigs E ns n) (createOrder ord) st0)))))"
    by (simp add: CheckMapInvariant_def Let_def split: run.split)
  from run dist names ex last show ?thesis
    by (intro conjI)
qed

theorem deleteConfigsFromStore_deletes_all_witness:
  "(\<exists>s' evs.
      deleteConfigsFromStore sampleCollections (traced (memStore (schemasOf sampleCollections)))
        ''ns1'' 2 (([(Make sampleCollections ''ns1'' 1)\<lparr>ResourceVersion := ''v1''\<rparr>,
                    (Make sampleCollections ''ns1'' 7)\<lparr>ResourceVersion := ''v1''\<rparr>], []), []) =
        ((s', evs), [] @ judge [expectNoError, expectNoError, expectEmptied] evs) \<and>
      map fst evs =
        [Delete_call (mockGvk sampleCollections) ''mock-config0'' ''ns1'' None,
         Delete_call (mockGvk sampleCollections) ''mock-config1'' ''ns1'' None,
         List_call (mockGvk sampleCollections) ''ns1'']) \<and>
   deleteConfigsFromStore sampleCollections (memStore (schemasOf sampleCollections)) ''ns1'' 2
     ([(Make sampleCollections ''ns1'' 1)\<lparr>ResourceVersion := ''v1''\<rparr>,
       (Make sampleCollections ''ns1'' 7)\<lparr>ResourceVersion := ''v1''\<rparr>], []) =
     ([(Make sampleCollections ''ns1'' 7)\<lparr>ResourceVersion := ''v1''\<rparr>],
      [Error_err ''not found'',
       Errorf_wanted0 1 [(Make sampleCollections ''ns1'' 7)\<lparr>ResourceVersion := ''v1''\<rparr>]])"
proof -
  note T = deleteConfigsFromStore_deletes_all [of sampleCollections
      "memStore (schemasOf sampleCollections)" "''ns1''" 2
      "[(Make sampleCollections ''ns1'' 1)\<lparr>ResourceVersion := ''v1''\<rparr>,
        (Make sampleCollections ''ns1'' 7)\<lparr>ResourceVersion := ''v1''\<rparr>]" "[]"]
  have u: "[0..2 - 1] = [0, 1::int]"
    by (simp add: upto.simps)
  from T obtain s' evs where
    a: "deleteConfigsFromStore sampleCollections (traced (memStore (schemasOf sampleCollections)))
        ''ns1'' 2 (([(Make sampleCollections ''ns1'' 1)\<lparr>ResourceVersion := ''v1''\<rparr>,
                    (Make sampleCollections ''ns1'' 7)\<lparr>ResourceVersion := ''v1''\<rparr>], []), []) =
        ((s', evs), [] @ judge (map (\<lambda>i. expectNoError) [0..2 - 1] @ [expectEmptied]) evs)"
    and c: "map fst evs =
        map (\<lambda>i. Delete_call (mockGvk sampleCollections) (Name (Make sampleCollections ''ns1'' i))
               ''ns1'' None) [0..2 - 1] @
        [List_call (mockGvk sampleCollections) ''ns1'']"
    by (elim conjE exE)
  have run: "\<exists>s' evs.
      deleteConfigsFromStore sampleCollections (traced (memStore (schemasOf sampleCollections)))
        ''ns1'' 2 (([(Make sampleCollections ''ns1'' 1)\<lparr>ResourceVersion := ''v1''\<rparr>,
                    (Make sampleCollections ''ns1'' 7)\<lparr>ResourceVersion := ''v1''\<rparr>], []), []) =
        ((s', evs), [] @ judge [expectNoError, expectNoError, expectEmptied] evs) \<and>
      map fst evs =
        [Delete_call (mockGvk sampleCollections) ''mock-config0'' ''ns1'' None,
         Delete_call (mockGvk sampleCollections) ''mock-config1'' ''ns1'' None,
         List_call (mockGvk sampleCollections) ''ns1'']"
    using a c unfolding u
    by (intro exI [of _ s'] exI [of _ evs]) (simp add: Name_Make itoa_0 itoa_1)
  have i7: "itoa 7 = ''7''"
    by (simp add: itoa_def utoa.simps digit_def)
  have e: "deleteConfigsFromStore sampleCollections (memStore (schemasOf sampleCollections))
     ''ns1'' 2
     ([(Make sampleCollections ''ns1'' 1)\<lparr>ResourceVersion := ''v1''\<rparr>,
       (Make sampleCollections ''ns1'' 7)\<lparr>ResourceVersion := ''v1''\<rparr>], []) =
     ([(Make sampleCollections ''ns1'' 7)\<lparr>ResourceVersion := ''v1''\<rparr>],
      [Error_err ''not found'',
       Errorf_wanted0 1 [(Make sampleCollections ''ns1'' 7)\<lparr>ResourceVersion := ''v1''\<rparr>]])"
    by (simp add: harness_defs sample_defs i7)
  from run e show ?thesis
    by (intro conjI)
qed

text \<open>
  C9. When the registry of the store does not resolve the mock kind,
  \<open>CheckMapInvariant\<close> stops with the report of \<^verbatim>\<open>t.Fatal\<close> and makes no call of the
  store. When it resolves the kind, the check runs to its end whatever the store
  replies: it makes the calls of all four steps (\<open>3 * n + 9\<close> of them), and each reply
  that is not the expected one, such as an error of \<open>Create\<close> on a fixture, adds its
  report to the log without stopping the run.
\<close>

theorem CheckMapInvariant_severity:
  "(Schemas r s (mockGvk E) = None \<longrightarrow>
      CheckMapInvariant E (traced r) ns n ord ((s, []), t) =
        FailNow ((s, []), t @ [Fatal_msg ''expected config mock types'']) \<and>
      CheckMapInvariant E r ns n ord (s, t) =
        FailNow (s, t @ [Fatal_msg ''expected config mock types''])) \<and>
   (Schemas r s (mockGvk E) \<noteq> None \<and>
    range_order (createConfigs E ns n) (createOrder ord) \<and>
    range_order (createConfigs E ns n) (verifyOrder ord) \<longrightarrow>
      (\<exists>s' evs.
         CheckMapInvariant E (traced r) ns n ord ((s, []), t) =
           Done ((s', evs), t @ judge
             (map (\<lambda>k. expectNoError) (createOrder ord) @
              map (\<lambda>k. expectEqual (Make E ns k)) (verifyOrder ord) @
              [expectError, expectError, expectError, expectError, expectError,
               expectError, expectNothing, expectNothing] @
              map (\<lambda>i. expectNoError) [0..n - 1] @ [expectEmptied]) evs) \<and>
         CheckMapInvariant E r ns n ord (s, t) =
           Done (s', t @ judge
             (map (\<lambda>k. expectNoError) (createOrder ord) @
              map (\<lambda>k. expectEqual (Make E ns k)) (verifyOrder ord) @
              [expectError, expectError, expectError, expectError, expectError,
               expectError, expectNothing, expectNothing] @
              map (\<lambda>i. expectNoError) [0..n - 1] @ [expectEmptied]) evs) \<and>
         map fst evs =
           map (\<lambda>k. Create_call (Make E ns k)) (createOrder ord) @
           map (\<lambda>k. Get_call (mockGvk E) (Name (Make E ns k)) ns) (verifyOrder ord) @
           [Create_call zeroConfig, Update_call zeroConfig,
            Create_call (invalid E []), Update_call (invalid E []),
            Create_call (missing E []), Update_call (missing E []),
            List_call (mockGvk E) [], Get_call (mockGvk E) ''missing'' []] @
           map (\<lambda>i. Delete_call (mockGvk E) (Name (Make E ns i)) ns None) [0..n - 1] @
           [List_call (mockGvk E) ns] \<and>
         length evs = 3 * nat n + 9)) \<and>
   (\<forall>c cfg e. expectNoError (c, Wrote cfg (Some e)) = [Error_err e] \<and>
      expectNoError (c, Wrote cfg None) = [])"
proof (intro conjI impI)
  assume "Schemas r s (mockGvk E) = None"
  then show "CheckMapInvariant E r ns n ord (s, t) =
      FailNow (s, t @ [Fatal_msg ''expected config mock types''])"
    by (rule CheckMapInvariant_fatal)
next
  assume "Schemas r s (mockGvk E) = None"
  then have "Schemas (traced r) (s, []) (mockGvk E) = None"
    by (simp add: Schemas_traced)
  then show "CheckMapInvariant E (traced r) ns n ord ((s, []), t) =
      FailNow ((s, []), t @ [Fatal_msg ''expected config mock types''])"
    by (rule CheckMapInvariant_fatal)
next
  assume h: "Schemas r s (mockGvk E) \<noteq> None \<and>
    range_order (createConfigs E ns n) (createOrder ord) \<and>
    range_order (createConfigs E ns n) (verifyOrder ord)"
  then have h1: "Schemas r s (mockGvk E) \<noteq> None"
    and h2: "range_order (createConfigs E ns n) (createOrder ord)"
    and h3: "range_order (createConfigs E ns n) (verifyOrder ord)"
    by simp_all
  from CheckMapInvariant_run [OF h1 h2 h3, of "[]" t] obtain s' evs where
    a: "CheckMapInvariant E (traced r) ns n ord ((s, []), t) =
       Done ((s', [] @ evs), t @ judge (map snd (crudScript E ns n ord)) evs)"
    and b: "CheckMapInvariant E r ns n ord (s, t) =
       Done (s', t @ judge (map snd (crudScript E ns n ord)) evs)"
    and c: "map fst evs = map fst (crudScript E ns n ord)"
    by blast
  have hs: "map snd (crudScript E ns n ord) =
      map (\<lambda>k. expectNoError) (createOrder ord) @
       map (\<lambda>k. expectEqual (Make E ns k)) (verifyOrder ord) @
       [expectError, expectError, expectError, expectError, expectError,
        expectError, expectNothing, expectNothing] @
       map (\<lambda>i. expectNoError) [0..n - 1] @ [expectEmptied]"
    by (simp add: crudScript_def createScript_def verifyScript_def negativeScript_def
        deleteScript_def comp_def)
  have cs: "map fst (crudScript E ns n ord) =
      map (\<lambda>k. Create_call (Make E ns k)) (createOrder ord) @
      map (\<lambda>k. Get_call (mockGvk E) (Name (Make E ns k)) ns) (verifyOrder ord) @
      [Create_call zeroConfig, Update_call zeroConfig,
       Create_call (invalid E []), Update_call (invalid E []),
       Create_call (missing E []), Update_call (missing E []),
       List_call (mockGvk E) [], Get_call (mockGvk E) ''missing'' []] @
      map (\<lambda>i. Delete_call (mockGvk E) (Name (Make E ns i)) ns None) [0..n - 1] @
      [List_call (mockGvk E) ns]"
    by (simp add: crudScript_def createScript_def verifyScript_def negativeScript_def
        deleteScript_def comp_def Name_Make)
  from c have "length (map fst evs) = length (map fst (crudScript E ns n ord))"
    by (rule arg_cong)
  then have l: "length evs = 3 * nat n + 9"
    by (simp add: length_crudScript [OF h2 h3])
  from a b c l show "\<exists>s' evs.
         CheckMapInvariant E (traced r) ns n ord ((s, []), t) =
           Done ((s', evs), t @ judge
             (map (\<lambda>k. expectNoError) (createOrder ord) @
              map (\<lambda>k. expectEqual (Make E ns k)) (verifyOrder ord) @
              [expectError, expectError, expectError, expectError, expectError,
               expectError, expectNothing, expectNothing] @
              map (\<lambda>i. expectNoError) [0..n - 1] @ [expectEmptied]) evs) \<and>
         CheckMapInvariant E r ns n ord (s, t) =
           Done (s', t @ judge
             (map (\<lambda>k. expectNoError) (createOrder ord) @
              map (\<lambda>k. expectEqual (Make E ns k)) (verifyOrder ord) @
              [expectError, expectError, expectError, expectError, expectError,
               expectError, expectNothing, expectNothing] @
              map (\<lambda>i. expectNoError) [0..n - 1] @ [expectEmptied]) evs) \<and>
         map fst evs =
           map (\<lambda>k. Create_call (Make E ns k)) (createOrder ord) @
           map (\<lambda>k. Get_call (mockGvk E) (Name (Make E ns k)) ns) (verifyOrder ord) @
           [Create_call zeroConfig, Update_call zeroConfig,
            Create_call (invalid E []), Update_call (invalid E []),
            Create_call (missing E []), Update_call (missing E []),
            List_call (mockGvk E) [], Get_call (mockGvk E) ''missing'' []] @
           map (\<lambda>i. Delete_call (mockGvk E) (Name (Make E ns i)) ns None) [0..n - 1] @
           [List_call (mockGvk E) ns] \<and>
         length evs = 3 * nat n + 9"
    unfolding hs cs
    by (intro exI [of _ s'] exI [of _ evs]) simp
next
  show "\<forall>c cfg e. expectNoError (c, Wrote cfg (Some e)) = [Error_err e] \<and>
      expectNoError (c, Wrote cfg None) = []"
    by (simp add: expectNoError_def)
qed

theorem CheckMapInvariant_severity_witness:
  "Schemas (memStore []) [] (mockGvk sampleCollections) = None \<and>
   CheckMapInvariant sampleCollections (traced (memStore [])) ''ns1'' 1
     \<lparr>createOrder = [0], verifyOrder = [0], invalidOrder = [0], missingOrder = [0]\<rparr>
     (([], []), []) =
     FailNow (([], []), [] @ [Fatal_msg ''expected config mock types'']) \<and>
   Schemas (memStore (schemasOf sampleCollections))
     [(Make sampleCollections ''ns1'' 0)\<lparr>Labels := None\<rparr>] (mockGvk sampleCollections) \<noteq> None \<and>
   range_order (createConfigs sampleCollections ''ns1'' 1) [0] \<and>
   (\<exists>s' evs.
      CheckMapInvariant sampleCollections (traced (memStore (schemasOf sampleCollections)))
        ''ns1'' 1
        \<lparr>createOrder = [0], verifyOrder = [0], invalidOrder = [0], missingOrder = [0]\<rparr>
        (([(Make sampleCollections ''ns1'' 0)\<lparr>Labels := None\<rparr>], []), []) =
        Done ((s', evs), [] @ judge
          [expectNoError, expectEqual (Make sampleCollections ''ns1'' 0),
           expectError, expectError, expectError, expectError, expectError, expectError,
           expectNothing, expectNothing, expectNoError, expectEmptied] evs) \<and>
      length evs = 3 * nat 1 + 9) \<and>
   CheckMapInvariant sampleCollections (memStore (schemasOf sampleCollections)) ''ns1'' 1
     \<lparr>createOrder = [0], verifyOrder = [0], invalidOrder = [0], missingOrder = [0]\<rparr>
     ([(Make sampleCollections ''ns1'' 0)\<lparr>Labels := None\<rparr>], []) =
     Done ([], [Error_err ''already exists'',
                Errorf_wanted (Make sampleCollections ''ns1'' 0)
                  (Some ((Make sampleCollections ''ns1'' 0)\<lparr>Labels := None\<rparr>))])"
proof -
  let ?ord = "\<lparr>createOrder = [0], verifyOrder = [0], invalidOrder = [0], missingOrder = [0]\<rparr>"
  let ?s = "[(Make sampleCollections ''ns1'' 0)\<lparr>Labels := None\<rparr>]"
  have n: "Schemas (memStore []) [] (mockGvk sampleCollections) = None"
    by (simp add: sample_defs)
  have f: "CheckMapInvariant sampleCollections (traced (memStore [])) ''ns1'' 1 ?ord
     (([], []), []) = FailNow (([], []), [] @ [Fatal_msg ''expected config mock types''])"
    by (rule CheckMapInvariant_severity [of "memStore []" "[]" sampleCollections "''ns1''" 1
          ?ord "[]", THEN conjunct1, THEN mp, OF n, THEN conjunct1])
  have h1: "Schemas (memStore (schemasOf sampleCollections)) ?s (mockGvk sampleCollections) \<noteq> None"
    by (rule sample_schema)
  have h2: "range_order (createConfigs sampleCollections ''ns1'' 1) [0]"
    by (rule range_order_1)
  have h: "Schemas (memStore (schemasOf sampleCollections)) ?s (mockGvk sampleCollections) \<noteq> None \<and>
      range_order (createConfigs sampleCollections ''ns1'' 1) (createOrder ?ord) \<and>
      range_order (createConfigs sampleCollections ''ns1'' 1) (verifyOrder ?ord)"
    using h1 h2 by simp
  from CheckMapInvariant_severity [of "memStore (schemasOf sampleCollections)" ?s
      sampleCollections "''ns1''" 1 ?ord "[]", THEN conjunct2, THEN conjunct1, THEN mp, OF h]
  obtain s' evs where
    a: "CheckMapInvariant sampleCollections (traced (memStore (schemasOf sampleCollections)))
        ''ns1'' 1 ?ord ((?s, []), []) =
        Done ((s', evs), [] @ judge
          (map (\<lambda>k. expectNoError) (createOrder ?ord) @
           map (\<lambda>k. expectEqual (Make sampleCollections ''ns1'' k)) (verifyOrder ?ord) @
           [expectError, expectError, expectError, expectError, expectError,
            expectError, expectNothing, expectNothing] @
           map (\<lambda>i. expectNoError) [0..1 - 1] @ [expectEmptied]) evs)"
    and l: "length evs = 3 * nat 1 + 9"
    by (elim conjE exE)
  have u: "[0..1 - 1] = [0::int]"
    by simp
  have hs: "map (\<lambda>k. expectNoError) (createOrder ?ord) @
           map (\<lambda>k. expectEqual (Make sampleCollections ''ns1'' k)) (verifyOrder ?ord) @
           [expectError, expectError, expectError, expectError, expectError,
            expectError, expectNothing, expectNothing] @
           map (\<lambda>i. expectNoError) [0..1 - 1] @ [expectEmptied] =
          [expectNoError, expectEqual (Make sampleCollections ''ns1'' 0),
           expectError, expectError, expectError, expectError, expectError, expectError,
           expectNothing, expectNothing, expectNoError, expectEmptied]"
    unfolding u by simp
  have run: "\<exists>s' evs.
      CheckMapInvariant sampleCollections (traced (memStore (schemasOf sampleCollections)))
        ''ns1'' 1 ?ord ((?s, []), []) =
        Done ((s', evs), [] @ judge
          [expectNoError, expectEqual (Make sampleCollections ''ns1'' 0),
           expectError, expectError, expectError, expectError, expectError, expectError,
           expectNothing, expectNothing, expectNoError, expectEmptied] evs) \<and>
      length evs = 3 * nat 1 + 9"
    using a l unfolding hs by (intro exI [of _ s'] exI [of _ evs] conjI)
  have e: "CheckMapInvariant sampleCollections (memStore (schemasOf sampleCollections)) ''ns1'' 1
     ?ord (?s, []) =
     Done ([], [Error_err ''already exists'',
                Errorf_wanted (Make sampleCollections ''ns1'' 0)
                  (Some ((Make sampleCollections ''ns1'' 0)\<lparr>Labels := None\<rparr>))])"
    by (simp add: harness_defs sample_defs)
  from n f h1 h2 run e show ?thesis
    by (intro conjI)
qed

text \<open>
  C10. Every fixture that the harness holds has an empty version: \<open>Make\<close> leaves the
  version empty, and the map of fixtures that the later steps receive is the one
  \<open>createConfigs\<close> built, whatever \<open>Create\<close> returned. So \<open>getFirstRevision\<close> returns
  the empty string for every order, and for every \<open>n \<ge> 1\<close> the run of
  \<open>CheckMapInvariant\<close> submits the resources named \<open>invalid\<close> and \<open>missing\<close> with an
  empty version, against any store.
\<close>

theorem fixtures_hold_no_version:
  "(\<forall>i. ResourceVersion (Make E ns i) = []) \<and>
   (\<forall>k elt. createConfigs E ns n k = Some elt \<longrightarrow> ResourceVersion elt = []) \<and>
   (\<forall>ks. getFirstRevision (createConfigs E ns n) ks = []) \<and>
   ResourceVersion (invalid E []) = [] \<and> ResourceVersion (missing E []) = [] \<and>
   (1 \<le> n \<and> Schemas r s (mockGvk E) \<noteq> None \<and>
    range_order (createConfigs E ns n) (createOrder ord) \<and>
    range_order (createConfigs E ns n) (verifyOrder ord) \<longrightarrow>
      (\<exists>s' evs t'.
         CheckMapInvariant E (traced r) ns n ord ((s, []), t) = Done ((s', evs), t') \<and>
         map fst evs =
           map (\<lambda>k. Create_call (Make E ns k)) (createOrder ord) @
           map (\<lambda>k. Get_call (mockGvk E) (Name (Make E ns k)) ns) (verifyOrder ord) @
           [Create_call zeroConfig, Update_call zeroConfig,
            Create_call (invalid E []), Update_call (invalid E []),
            Create_call (missing E []), Update_call (missing E []),
            List_call (mockGvk E) [], Get_call (mockGvk E) ''missing'' []] @
           map fst (deleteScript E ns n)))"
proof (intro conjI impI allI)
  fix i
  show "ResourceVersion (Make E ns i) = []"
    by (rule ResourceVersion_Make)
next
  fix k elt
  assume "createConfigs E ns n k = Some elt"
  then show "ResourceVersion elt = []"
    by (auto simp: createConfigs_apply ResourceVersion_Make split: if_splits)
next
  fix ks
  show "getFirstRevision (createConfigs E ns n) ks = []"
    by (rule getFirstRevision_createConfigs)
next
  show "ResourceVersion (invalid E []) = []"
    by (simp add: invalid_def)
next
  show "ResourceVersion (missing E []) = []"
    by (simp add: missing_def)
next
  assume h: "1 \<le> n \<and> Schemas r s (mockGvk E) \<noteq> None \<and>
    range_order (createConfigs E ns n) (createOrder ord) \<and>
    range_order (createConfigs E ns n) (verifyOrder ord)"
  then have h1: "Schemas r s (mockGvk E) \<noteq> None"
    and h2: "range_order (createConfigs E ns n) (createOrder ord)"
    and h3: "range_order (createConfigs E ns n) (verifyOrder ord)"
    by simp_all
  from CheckMapInvariant_run [OF h1 h2 h3, of "[]" t] obtain s' evs where
    a: "CheckMapInvariant E (traced r) ns n ord ((s, []), t) =
       Done ((s', [] @ evs), t @ judge (map snd (crudScript E ns n ord)) evs)"
    and c: "map fst evs = map fst (crudScript E ns n ord)"
    by blast
  have "map fst (crudScript E ns n ord) =
      map (\<lambda>k. Create_call (Make E ns k)) (createOrder ord) @
      map (\<lambda>k. Get_call (mockGvk E) (Name (Make E ns k)) ns) (verifyOrder ord) @
      [Create_call zeroConfig, Update_call zeroConfig,
       Create_call (invalid E []), Update_call (invalid E []),
       Create_call (missing E []), Update_call (missing E []),
       List_call (mockGvk E) [], Get_call (mockGvk E) ''missing'' []] @
      map fst (deleteScript E ns n)"
    by (simp add: crudScript_def createScript_def verifyScript_def negativeScript_def
        comp_def Name_Make)
  with a c show "\<exists>s' evs t'.
      CheckMapInvariant E (traced r) ns n ord ((s, []), t) = Done ((s', evs), t') \<and>
      map fst evs =
        map (\<lambda>k. Create_call (Make E ns k)) (createOrder ord) @
        map (\<lambda>k. Get_call (mockGvk E) (Name (Make E ns k)) ns) (verifyOrder ord) @
        [Create_call zeroConfig, Update_call zeroConfig,
         Create_call (invalid E []), Update_call (invalid E []),
         Create_call (missing E []), Update_call (missing E []),
         List_call (mockGvk E) [], Get_call (mockGvk E) ''missing'' []] @
        map fst (deleteScript E ns n)"
    by (intro exI [of _ s'] exI [of _ evs]
        exI [of _ "t @ judge (map snd (crudScript E ns n ord)) evs"]) simp
qed

theorem fixtures_hold_no_version_witness:
  "createConfigs sampleCollections ''ns1'' 1 0 = Some (Make sampleCollections ''ns1'' 0) \<and>
   ResourceVersion (Make sampleCollections ''ns1'' 0) = [] \<and>
   (1::int) \<le> 1 \<and>
   Schemas (memStore (schemasOf sampleCollections)) [] (mockGvk sampleCollections) \<noteq> None \<and>
   range_order (createConfigs sampleCollections ''ns1'' 1) [0] \<and>
   (\<exists>s' evs t'.
      CheckMapInvariant sampleCollections (traced (memStore (schemasOf sampleCollections)))
        ''ns1'' 1
        \<lparr>createOrder = [0], verifyOrder = [0], invalidOrder = [0], missingOrder = [0]\<rparr>
        (([], []), []) = Done ((s', evs), t') \<and>
      map fst evs =
        [Create_call (Make sampleCollections ''ns1'' 0),
         Get_call (mockGvk sampleCollections) ''mock-config0'' ''ns1'',
         Create_call zeroConfig, Update_call zeroConfig,
         Create_call (invalid sampleCollections []), Update_call (invalid sampleCollections []),
         Create_call (missing sampleCollections []), Update_call (missing sampleCollections []),
         List_call (mockGvk sampleCollections) [],
         Get_call (mockGvk sampleCollections) ''missing'' [],
         Delete_call (mockGvk sampleCollections) ''mock-config0'' ''ns1'' None,
         List_call (mockGvk sampleCollections) ''ns1''])"
proof -
  let ?ord = "\<lparr>createOrder = [0], verifyOrder = [0], invalidOrder = [0], missingOrder = [0]\<rparr>"
  note T = fixtures_hold_no_version [of sampleCollections "''ns1''" 1
      "memStore (schemasOf sampleCollections)" "[]" ?ord "[]"]
  have g: "createConfigs sampleCollections ''ns1'' 1 0 = Some (Make sampleCollections ''ns1'' 0)"
    by (simp add: createConfigs_apply)
  from T have "\<forall>k elt. createConfigs sampleCollections ''ns1'' 1 k = Some elt \<longrightarrow>
      ResourceVersion elt = []"
    by (elim conjE)
  with g have v: "ResourceVersion (Make sampleCollections ''ns1'' 0) = []"
    by (elim allE [of _ 0] allE [of _ "Make sampleCollections ''ns1'' 0"] impE)
  have h0: "(1::int) \<le> 1" by simp
  have h1: "Schemas (memStore (schemasOf sampleCollections)) [] (mockGvk sampleCollections) \<noteq> None"
    by (rule sample_schema)
  have h2: "range_order (createConfigs sampleCollections ''ns1'' 1) [0]"
    by (rule range_order_1)
  have h: "1 \<le> (1::int) \<and>
      Schemas (memStore (schemasOf sampleCollections)) [] (mockGvk sampleCollections) \<noteq> None \<and>
      range_order (createConfigs sampleCollections ''ns1'' 1) (createOrder ?ord) \<and>
      range_order (createConfigs sampleCollections ''ns1'' 1) (verifyOrder ?ord)"
    using h1 h2 by simp
  from T [THEN conjunct2, THEN conjunct2, THEN conjunct2, THEN conjunct2, THEN conjunct2,
      THEN mp, OF h]
  obtain s' evs t' where
    a: "CheckMapInvariant sampleCollections (traced (memStore (schemasOf sampleCollections)))
        ''ns1'' 1 ?ord (([], []), []) = Done ((s', evs), t')"
    and c: "map fst evs =
        map (\<lambda>k. Create_call (Make sampleCollections ''ns1'' k)) (createOrder ?ord) @
        map (\<lambda>k. Get_call (mockGvk sampleCollections) (Name (Make sampleCollections ''ns1'' k))
               ''ns1'') (verifyOrder ?ord) @
        [Create_call zeroConfig, Update_call zeroConfig,
         Create_call (invalid sampleCollections []), Update_call (invalid sampleCollections []),
         Create_call (missing sampleCollections []), Update_call (missing sampleCollections []),
         List_call (mockGvk sampleCollections) [],
         Get_call (mockGvk sampleCollections) ''missing'' []] @
        map fst (deleteScript sampleCollections ''ns1'' 1)"
    by (elim conjE exE)
  from c have c': "map fst evs =
        [Create_call (Make sampleCollections ''ns1'' 0),
         Get_call (mockGvk sampleCollections) ''mock-config0'' ''ns1'',
         Create_call zeroConfig, Update_call zeroConfig,
         Create_call (invalid sampleCollections []), Update_call (invalid sampleCollections []),
         Create_call (missing sampleCollections []), Update_call (missing sampleCollections []),
         List_call (mockGvk sampleCollections) [],
         Get_call (mockGvk sampleCollections) ''missing'' [],
         Delete_call (mockGvk sampleCollections) ''mock-config0'' ''ns1'' None,
         List_call (mockGvk sampleCollections) ''ns1'']"
    by (simp add: deleteScript_def Name_Make itoa_0)
  have run: "\<exists>s' evs t'.
      CheckMapInvariant sampleCollections (traced (memStore (schemasOf sampleCollections)))
        ''ns1'' 1 ?ord (([], []), []) = Done ((s', evs), t') \<and>
      map fst evs =
        [Create_call (Make sampleCollections ''ns1'' 0),
         Get_call (mockGvk sampleCollections) ''mock-config0'' ''ns1'',
         Create_call zeroConfig, Update_call zeroConfig,
         Create_call (invalid sampleCollections []), Update_call (invalid sampleCollections []),
         Create_call (missing sampleCollections []), Update_call (missing sampleCollections []),
         List_call (mockGvk sampleCollections) [],
         Get_call (mockGvk sampleCollections) ''missing'' [],
         Delete_call (mockGvk sampleCollections) ''mock-config0'' ''ns1'' None,
         List_call (mockGvk sampleCollections) ''ns1'']"
    using a c' by (intro exI [of _ s'] exI [of _ evs] exI [of _ t'] conjI)
  from g v h0 h1 h2 run show ?thesis
    by (intro conjI)
qed

text \<open>
  C4, as stated, has the harness look the name \<open>missing\<close> up in the tested namespace.
  In a run for the namespace \<open>ns1\<close> no call \<open>Get\<close> for \<open>missing\<close> in \<open>ns1\<close> is made:
  the lookup is made with the empty namespace.
\<close>

theorem Get_missing_not_in_tested_namespace:
  "Get_call (mockGvk sampleCollections) ''missing'' ''ns1'' \<notin>
     set (map fst (trace
       (CheckMapInvariant sampleCollections (traced (memStore (schemasOf sampleCollections)))
          ''ns1'' 2
          \<lparr>createOrder = [1, 0], verifyOrder = [0, 1], invalidOrder = [0, 1],
             missingOrder = [1, 0]\<rparr>
          (([], []), [])))) \<and>
   Get_call (mockGvk sampleCollections) ''missing'' [] \<in>
     set (map fst (trace
       (CheckMapInvariant sampleCollections (traced (memStore (schemasOf sampleCollections)))
          ''ns1'' 2
          \<lparr>createOrder = [1, 0], verifyOrder = [0, 1], invalidOrder = [0, 1],
             missingOrder = [1, 0]\<rparr>
          (([], []), []))))"
proof -
  let ?ord = "\<lparr>createOrder = [1, 0], verifyOrder = [0, 1], invalidOrder = [0, 1],
             missingOrder = [1, 0]\<rparr>"
  have h2: "range_order (createConfigs sampleCollections ''ns1'' 2) (createOrder ?ord)"
    using range_order_2 by simp
  have h3: "range_order (createConfigs sampleCollections ''ns1'' 2) (verifyOrder ?ord)"
    using range_order_2' by simp
  from CheckMapInvariant_run [OF sample_schema h2 h3, of "[]" "[]" "[]"] obtain s' evs where
    a: "CheckMapInvariant sampleCollections (traced (memStore (schemasOf sampleCollections)))
        ''ns1'' 2 ?ord (([], []), []) =
       Done ((s', [] @ evs),
         [] @ judge (map snd (crudScript sampleCollections ''ns1'' 2 ?ord)) evs)"
    and c: "map fst evs = map fst (crudScript sampleCollections ''ns1'' 2 ?ord)"
    by blast
  have u: "[0..1] = [0, 1::int]"
    by (simp add: upto.simps)
  from a have t: "map fst (trace
       (CheckMapInvariant sampleCollections (traced (memStore (schemasOf sampleCollections)))
          ''ns1'' 2 ?ord (([], []), []))) =
       map fst (crudScript sampleCollections ''ns1'' 2 ?ord)"
    by (simp add: trace_def c)
  show ?thesis
    unfolding t
    by (simp add: crudScript_def createScript_def verifyScript_def negativeScript_def
        deleteScript_def u)
qed

text \<open>
  C4, amended. During the negative cases the harness calls \<open>List\<close> for the mock kind
  with the empty namespace and reports a list that is not empty, then calls \<open>Get\<close> for
  the mock kind and the name \<open>missing\<close>, also with the empty namespace, and reports a
  result that is not null. In a run of \<open>CheckMapInvariant\<close> both calls come after the
  calls that create and read back the fixtures and before the first \<open>Delete\<close>.
\<close>

theorem verifyMissingElements_absence:
  "(\<exists>s' evs.
      verifyMissingElements E (traced r) ((s, []), t) =
        ((s', evs), t @ judge [expectNothing, expectNothing] evs) \<and>
      verifyMissingElements E r (s, t) = (s', t @ judge [expectNothing, expectNothing] evs) \<and>
      map fst evs = [List_call (mockGvk E) [], Get_call (mockGvk E) ''missing'' []]) \<and>
   (\<forall>c x l. expectNothing (c, Listed []) = [] \<and>
      expectNothing (c, Listed (x # l)) = [Error_msg ''unexpected objects for missing type''] \<and>
      expectNothing (c, Got None) = [] \<and>
      expectNothing (c, Got (Some x)) = [Error_msg ''unexpected configuration object found'']) \<and>
   (Schemas r s (mockGvk E) \<noteq> None \<and>
    range_order (createConfigs E ns n) (createOrder ord) \<and>
    range_order (createConfigs E ns n) (verifyOrder ord) \<longrightarrow>
      (\<exists>s' evs t'.
         CheckMapInvariant E (traced r) ns n ord ((s, []), t) = Done ((s', evs), t') \<and>
         map fst evs =
           (map (\<lambda>k. Create_call (Make E ns k)) (createOrder ord) @
            map (\<lambda>k. Get_call (mockGvk E) (Name (Make E ns k)) ns) (verifyOrder ord) @
            [Create_call zeroConfig, Update_call zeroConfig,
             Create_call (invalid E []), Update_call (invalid E []),
             Create_call (missing E []), Update_call (missing E [])]) @
           [List_call (mockGvk E) [], Get_call (mockGvk E) ''missing'' []] @
           (map (\<lambda>i. Delete_call (mockGvk E) (Name (Make E ns i)) ns None) [0..n - 1] @
            [List_call (mockGvk E) ns])))"
proof (intro conjI impI)
  from phase_verifyMissingElements [of E r] obtain s' evs where
    a: "verifyMissingElements E (traced r) ((s, []), t) =
       ((s', [] @ evs),
        t @ judge (map snd [(List_call (mockGvk E) [], expectNothing),
          (Get_call (mockGvk E) ''missing'' [], expectNothing)]) evs)"
    and b: "verifyMissingElements E r (s, t) =
       (s', t @ judge (map snd [(List_call (mockGvk E) [], expectNothing),
          (Get_call (mockGvk E) ''missing'' [], expectNothing)]) evs)"
    and c: "map fst evs = map fst [(List_call (mockGvk E) [], expectNothing),
          (Get_call (mockGvk E) ''missing'' [], expectNothing)]"
    by (rule phaseE)
  then show "\<exists>s' evs.
      verifyMissingElements E (traced r) ((s, []), t) =
        ((s', evs), t @ judge [expectNothing, expectNothing] evs) \<and>
      verifyMissingElements E r (s, t) = (s', t @ judge [expectNothing, expectNothing] evs) \<and>
      map fst evs = [List_call (mockGvk E) [], Get_call (mockGvk E) ''missing'' []]"
    by (intro exI [of _ s'] exI [of _ evs]) simp
next
  show "\<forall>c x l. expectNothing (c, Listed []) = [] \<and>
      expectNothing (c, Listed (x # l)) = [Error_msg ''unexpected objects for missing type''] \<and>
      expectNothing (c, Got None) = [] \<and>
      expectNothing (c, Got (Some x)) = [Error_msg ''unexpected configuration object found'']"
    by (simp add: expectNothing_def)
next
  assume h: "Schemas r s (mockGvk E) \<noteq> None \<and>
    range_order (createConfigs E ns n) (createOrder ord) \<and>
    range_order (createConfigs E ns n) (verifyOrder ord)"
  then have h1: "Schemas r s (mockGvk E) \<noteq> None"
    and h2: "range_order (createConfigs E ns n) (createOrder ord)"
    and h3: "range_order (createConfigs E ns n) (verifyOrder ord)"
    by simp_all
  from CheckMapInvariant_run [OF h1 h2 h3, of "[]" t] obtain s' evs where
    a: "CheckMapInvariant E (traced r) ns n ord ((s, []), t) =
       Done ((s', [] @ evs), t @ judge (map snd (crudScript E ns n ord)) evs)"
    and c: "map fst evs = map fst (crudScript E ns n ord)"
    by blast
  have "map fst (crudScript E ns n ord) =
      (map (\<lambda>k. Create_call (Make E ns k)) (createOrder ord) @
       map (\<lambda>k. Get_call (mockGvk E) (Name (Make E ns k)) ns) (verifyOrder ord) @
       [Create_call zeroConfig, Update_call zeroConfig,
        Create_call (invalid E []), Update_call (invalid E []),
        Create_call (missing E []), Update_call (missing E [])]) @
      [List_call (mockGvk E) [], Get_call (mockGvk E) ''missing'' []] @
      (map (\<lambda>i. Delete_call (mockGvk E) (Name (Make E ns i)) ns None) [0..n - 1] @
       [List_call (mockGvk E) ns])"
    by (simp add: crudScript_def createScript_def verifyScript_def negativeScript_def
        deleteScript_def comp_def Name_Make)
  with a c show "\<exists>s' evs t'.
      CheckMapInvariant E (traced r) ns n ord ((s, []), t) = Done ((s', evs), t') \<and>
      map fst evs =
        (map (\<lambda>k. Create_call (Make E ns k)) (createOrder ord) @
         map (\<lambda>k. Get_call (mockGvk E) (Name (Make E ns k)) ns) (verifyOrder ord) @
         [Create_call zeroConfig, Update_call zeroConfig,
          Create_call (invalid E []), Update_call (invalid E []),
          Create_call (missing E []), Update_call (missing E [])]) @
        [List_call (mockGvk E) [], Get_call (mockGvk E) ''missing'' []] @
        (map (\<lambda>i. Delete_call (mockGvk E) (Name (Make E ns i)) ns None) [0..n - 1] @
         [List_call (mockGvk E) ns])"
    by (intro exI [of _ s'] exI [of _ evs]
        exI [of _ "t @ judge (map snd (crudScript E ns n ord)) evs"]) simp
qed

theorem verifyMissingElements_absence_witness:
  "Schemas (memStore (schemasOf sampleCollections)) [] (mockGvk sampleCollections) \<noteq> None \<and>
   range_order (createConfigs sampleCollections ''ns1'' 2) [1, 0] \<and>
   range_order (createConfigs sampleCollections ''ns1'' 2) [0, 1] \<and>
   (\<exists>s' evs t'.
      CheckMapInvariant sampleCollections (traced (memStore (schemasOf sampleCollections)))
        ''ns1'' 2
        \<lparr>createOrder = [1, 0], verifyOrder = [0, 1], invalidOrder = [0, 1],
           missingOrder = [1, 0]\<rparr>
        (([], []), []) = Done ((s', evs), t') \<and>
      map fst evs =
        [Create_call (Make sampleCollections ''ns1'' 1),
         Create_call (Make sampleCollections ''ns1'' 0),
         Get_call (mockGvk sampleCollections) ''mock-config0'' ''ns1'',
         Get_call (mockGvk sampleCollections) ''mock-config1'' ''ns1'',
         Create_call zeroConfig, Update_call zeroConfig,
         Create_call (invalid sampleCollections []), Update_call (invalid sampleCollections []),
         Create_call (missing sampleCollections []), Update_call (missing sampleCollections []),
         List_call (mockGvk sampleCollections) [],
         Get_call (mockGvk sampleCollections) ''missing'' [],
         Delete_call (mockGvk sampleCollections) ''mock-config0'' ''ns1'' None,
         Delete_call (mockGvk sampleCollections) ''mock-config1'' ''ns1'' None,
         List_call (mockGvk sampleCollections) ''ns1'']) \<and>
   verifyMissingElements sampleCollections (memStore (schemasOf sampleCollections))
     ([(Make sampleCollections ''ns1'' 0)\<lparr>ResourceVersion := ''v1''\<rparr>,
       (Make sampleCollections ''ns1'' 1)\<lparr>ResourceVersion := ''v1''\<rparr>], []) =
     ([(Make sampleCollections ''ns1'' 0)\<lparr>ResourceVersion := ''v1''\<rparr>,
       (Make sampleCollections ''ns1'' 1)\<lparr>ResourceVersion := ''v1''\<rparr>], [])"
proof -
  let ?ord = "\<lparr>createOrder = [1, 0], verifyOrder = [0, 1], invalidOrder = [0, 1],
           missingOrder = [1, 0]\<rparr>"
  have h1: "Schemas (memStore (schemasOf sampleCollections)) [] (mockGvk sampleCollections) \<noteq> None"
    by (rule sample_schema)
  have h2: "range_order (createConfigs sampleCollections ''ns1'' 2) [1, 0]"
    by (rule range_order_2)
  have h3: "range_order (createConfigs sampleCollections ''ns1'' 2) [0, 1]"
    by (rule range_order_2')
  have h: "Schemas (memStore (schemasOf sampleCollections)) [] (mockGvk sampleCollections) \<noteq> None \<and>
      range_order (createConfigs sampleCollections ''ns1'' 2) (createOrder ?ord) \<and>
      range_order (createConfigs sampleCollections ''ns1'' 2) (verifyOrder ?ord)"
    using h1 h2 h3 by simp
  have u: "[0..2 - 1] = [0, 1::int]"
    by (simp add: upto.simps)
  from verifyMissingElements_absence [of sampleCollections
      "memStore (schemasOf sampleCollections)" "[]" "[]" "''ns1''" 2 ?ord,
      THEN conjunct2, THEN conjunct2, THEN mp, OF h]
  obtain s' evs t' where
    a: "CheckMapInvariant sampleCollections (traced (memStore (schemasOf sampleCollections)))
        ''ns1'' 2 ?ord (([], []), []) = Done ((s', evs), t')"
    and c: "map fst evs =
        (map (\<lambda>k. Create_call (Make sampleCollections ''ns1'' k)) (createOrder ?ord) @
         map (\<lambda>k. Get_call (mockGvk sampleCollections) (Name (Make sampleCollections ''ns1'' k))
                ''ns1'') (verifyOrder ?ord) @
         [Create_call zeroConfig, Update_call zeroConfig,
          Create_call (invalid sampleCollections []), Update_call (invalid sampleCollections []),
          Create_call (missing sampleCollections []),
          Update_call (missing sampleCollections [])]) @
        [List_call (mockGvk sampleCollections) [],
         Get_call (mockGvk sampleCollections) ''missing'' []] @
        (map (\<lambda>i. Delete_call (mockGvk sampleCollections)
                (Name (Make sampleCollections ''ns1'' i)) ''ns1'' None) [0..2 - 1] @
         [List_call (mockGvk sampleCollections) ''ns1''])"
    by (elim conjE exE)
  from c have c': "map fst evs =
        [Create_call (Make sampleCollections ''ns1'' 1),
         Create_call (Make sampleCollections ''ns1'' 0),
         Get_call (mockGvk sampleCollections) ''mock-config0'' ''ns1'',
         Get_call (mockGvk sampleCollections) ''mock-config1'' ''ns1'',
         Create_call zeroConfig, Update_call zeroConfig,
         Create_call (invalid sampleCollections []), Update_call (invalid sampleCollections []),
         Create_call (missing sampleCollections []), Update_call (missing sampleCollections []),
         List_call (mockGvk sampleCollections) [],
         Get_call (mockGvk sampleCollections) ''missing'' [],
         Delete_call (mockGvk sampleCollections) ''mock-config0'' ''ns1'' None,
         Delete_call (mockGvk sampleCollections) ''mock-config1'' ''ns1'' None,
         List_call (mockGvk sampleCollections) ''ns1'']"
    unfolding u by (simp add: Name_Make itoa_0 itoa_1)
  have run: "\<exists>s' evs t'.
      CheckMapInvariant sampleCollections (traced (memStore (schemasOf sampleCollections)))
        ''ns1'' 2 ?ord (([], []), []) = Done ((s', evs), t') \<and>
      map fst evs =
        [Create_call (Make sampleCollections ''ns1'' 1),
         Create_call (Make sampleCollections ''ns1'' 0),
         Get_call (mockGvk sampleCollections) ''mock-config0'' ''ns1'',
         Get_call (mockGvk sampleCollections) ''mock-config1'' ''ns1'',
         Create_call zeroConfig, Update_call zeroConfig,
         Create_call (invalid sampleCollections []), Update_call (invalid sampleCollections []),
         Create_call (missing sampleCollections []), Update_call (missing sampleCollections []),
         List_call (mockGvk sampleCollections) [],
         Get_call (mockGvk sampleCollections) ''missing'' [],
         Delete_call (mockGvk sampleCollections) ''mock-config0'' ''ns1'' None,
         Delete_call (mockGvk sampleCollections) ''mock-config1'' ''ns1'' None,
         List_call (mockGvk sampleCollections) ''ns1'']"
    using a c' by (intro exI [of _ s'] exI [of _ evs] exI [of _ t'] conjI)
  have e: "verifyMissingElements sampleCollections (memStore (schemasOf sampleCollections))
     ([(Make sampleCollections ''ns1'' 0)\<lparr>ResourceVersion := ''v1''\<rparr>,
       (Make sampleCollections ''ns1'' 1)\<lparr>ResourceVersion := ''v1''\<rparr>], []) =
     ([(Make sampleCollections ''ns1'' 0)\<lparr>ResourceVersion := ''v1''\<rparr>,
       (Make sampleCollections ''ns1'' 1)\<lparr>ResourceVersion := ''v1''\<rparr>], [])"
    by (simp add: harness_defs sample_defs)
  from h1 h2 h3 run e show ?thesis
    by (intro conjI)
qed

text \<open>
  C7, as stated, has the harness read a cluster-scoped kind back with
  \<open>Get(kind, "example", "")\<close>. With the gateway kind cluster-scoped and the check run
  for the namespace \<open>ns1\<close>, no such call is made: the lookup of the gateway is made
  with \<open>ns1\<close>.
\<close>

theorem cluster_scoped_Get_uses_given_namespace:
  "IsClusterScoped (Gateway clusterCollections) \<and>
   Get_call (schemaGvk (Gateway clusterCollections)) ''example'' [] \<notin>
     set (map fst (snd (fst
       (CheckIstioConfigTypes clusterCollections
          (traced (memStore (schemasOf clusterCollections))) ''ns1'' ([], []))))) \<and>
   Get_call (schemaGvk (Gateway clusterCollections)) ''example'' ''ns1'' \<in>
     set (map fst (snd (fst
       (CheckIstioConfigTypes clusterCollections
          (traced (memStore (schemasOf clusterCollections))) ''ns1'' ([], [])))))"
proof -
  from CheckIstioConfigTypes_loop_traced [of "memStore (schemasOf clusterCollections)" "''ns1''"
      "cases clusterCollections" "[]" "[]" "[]"]
  obtain s' evs where
    a: "CheckIstioConfigTypes_loop (traced (memStore (schemasOf clusterCollections))) ''ns1''
        (cases clusterCollections) (([], []), []) =
        ((s', [] @ evs), [] @ subtestReports (cases clusterCollections) evs)"
    and c: "map fst evs = concat (map (subtestCalls ''ns1'') (cases clusterCollections))"
    by blast
  from a have t: "map fst (snd (fst
       (CheckIstioConfigTypes clusterCollections
          (traced (memStore (schemasOf clusterCollections))) ''ns1'' ([], [])))) =
       concat (map (subtestCalls ''ns1'') (cases clusterCollections))"
    by (simp add: CheckIstioConfigTypes_def c)
  show ?thesis
    unfolding t
    by (simp add: cases_def Let_def subtestCalls_def sample_defs)
qed

text \<open>
  C7, amended. For each of the five example kinds, in the order of the table,
  \<open>CheckIstioConfigTypes\<close> builds the resource named \<open>example\<close> with the namespace it
  was given when the kind is namespaced and with no namespace when the kind is
  cluster-scoped, calls \<open>Create\<close>, then \<open>List\<close> for the kind and the given namespace,
  then \<open>Get\<close> for the kind, the name \<open>example\<close> and the given namespace, for a
  cluster-scoped kind too. Each kind has a log of its own, which receives the error of
  \<open>Create\<close>, a report when the list is empty and a report when \<open>Get\<close> returns null;
  all fifteen calls are made whatever the replies.
\<close>

theorem CheckIstioConfigTypes_ingestion:
  "(\<exists>s' evs.
      CheckIstioConfigTypes E (traced store) ns (s, []) =
        ((s', evs), subtestReports (cases E) evs) \<and>
      CheckIstioConfigTypes E store ns s = (s', subtestReports (cases E) evs) \<and>
      map fst evs =
        concat (map (\<lambda>(schema, spec).
            [Create_call
               \<lparr>GroupVersionKind = schemaGvk schema, Name = ''example'',
                Namespace = (if IsClusterScoped schema then [] else ns), Labels = None,
                Annotations = None, ResourceVersion = [], CreationTimestamp = zeroTime,
                Spec = spec\<rparr>,
             List_call (schemaGvk schema) ns,
             Get_call (schemaGvk schema) ''example'' ns])
          [(VirtualService E, ExampleVirtualService),
           (DestinationRule E, ExampleDestinationRule),
           (ServiceEntry E, ExampleServiceEntry),
           (Gateway E, ExampleGateway),
           (AuthorizationPolicy E, ExampleAuthorizationPolicy)]) \<and>
      map fst (subtestReports (cases E) evs) =
        [''VirtualService'', ''DestinationRule'', ''ServiceEntry'', ''Gateway'',
         ''AuthorizationPolicy''] \<and>
      (\<forall>k < 5. snd (subtestReports (cases E) evs ! k) =
         judge [expectStored, expectStored, expectStored] (take 3 (drop (3 * k) evs)))) \<and>
   (\<forall>c cfg e x l.
      expectStored (c, Wrote cfg (Some e)) = [Error_err e] \<and>
      expectStored (c, Wrote cfg None) = [] \<and>
      expectStored (c, Listed []) = [Error_msg ''expected non-zero number of configs''] \<and>
      expectStored (c, Listed (x # l)) = [] \<and>
      expectStored (c, Got None) = [Error_msg ''expected to find stored config''] \<and>
      expectStored (c, Got (Some x)) = [])"
proof (intro conjI)
  from CheckIstioConfigTypes_loop_traced [of store ns "cases E" s "[]" "[]"]
  obtain s' evs where
    a: "CheckIstioConfigTypes_loop (traced store) ns (cases E) ((s, []), []) =
        ((s', [] @ evs), [] @ subtestReports (cases E) evs)"
    and b: "CheckIstioConfigTypes_loop store ns (cases E) (s, []) =
        (s', [] @ subtestReports (cases E) evs)"
    and c: "map fst evs = concat (map (subtestCalls ns) (cases E))"
    by blast
  have c': "concat (map (subtestCalls ns) (cases E)) =
        concat (map (\<lambda>(schema, spec).
            [Create_call
               \<lparr>GroupVersionKind = schemaGvk schema, Name = ''example'',
                Namespace = (if IsClusterScoped schema then [] else ns), Labels = None,
                Annotations = None, ResourceVersion = [], CreationTimestamp = zeroTime,
                Spec = spec\<rparr>,
             List_call (schemaGvk schema) ns,
             Get_call (schemaGvk schema) ''example'' ns])
          [(VirtualService E, ExampleVirtualService),
           (DestinationRule E, ExampleDestinationRule),
           (ServiceEntry E, ExampleServiceEntry),
           (Gateway E, ExampleGateway),
           (AuthorizationPolicy E, ExampleAuthorizationPolicy)])"
    by (simp add: cases_def Let_def subtestCalls_def)
  have names: "map fst (subtestReports (cases E) evs) =
        [''VirtualService'', ''DestinationRule'', ''ServiceEntry'', ''Gateway'',
         ''AuthorizationPolicy'']"
    by (simp add: map_fst_subtestReports) (simp add: cases_def Let_def)
  have each: "\<forall>k < 5. snd (subtestReports (cases E) evs ! k) =
         judge [expectStored, expectStored, expectStored] (take 3 (drop (3 * k) evs))"
  proof (intro allI impI)
    fix k :: nat
    assume "k < 5"
    then have "k = 0 \<or> k = 1 \<or> k = 2 \<or> k = 3 \<or> k = 4"
      by arith
    then show "snd (subtestReports (cases E) evs ! k) =
         judge [expectStored, expectStored, expectStored] (take 3 (drop (3 * k) evs))"
      by (elim disjE) (simp_all add: cases_def Let_def)
  qed
  from a b c names each show "\<exists>s' evs.
      CheckIstioConfigTypes E (traced store) ns (s, []) =
        ((s', evs), subtestReports (cases E) evs) \<and>
      CheckIstioConfigTypes E store ns s = (s', subtestReports (cases E) evs) \<and>
      map fst evs =
        concat (map (\<lambda>(schema, spec).
            [Create_call
               \<lparr>GroupVersionKind = schemaGvk schema, Name = ''example'',
                Namespace = (if IsClusterScoped schema then [] else ns), Labels = None,
                Annotations = None, ResourceVersion = [], CreationTimestamp = zeroTime,
                Spec = spec\<rparr>,
             List_call (schemaGvk schema) ns,
             Get_call (schemaGvk schema) ''example'' ns])
          [(VirtualService E, ExampleVirtualService),
           (DestinationRule E, ExampleDestinationRule),
           (ServiceEntry E, ExampleServiceEntry),
           (Gateway E, ExampleGateway),
           (AuthorizationPolicy E, ExampleAuthorizationPolicy)]) \<and>
      map fst (subtestReports (cases E) evs) =
        [''VirtualService'', ''DestinationRule'', ''ServiceEntry'', ''Gateway'',
         ''AuthorizationPolicy''] \<and>
      (\<forall>k < 5. snd (subtestReports (cases E) evs ! k) =
         judge [expectStored, expectStored, expectStored] (take 3 (drop (3 * k) evs)))"
    unfolding c' [symmetric]
    by (intro exI [of _ s'] exI [of _ evs]) (simp add: CheckIstioConfigTypes_def)
next
  show "\<forall>c cfg e x l.
      expectStored (c, Wrote cfg (Some e)) = [Error_err e] \<and>
      expectStored (c, Wrote cfg None) = [] \<and>
      expectStored (c, Listed []) = [Error_msg ''expected non-zero number of configs''] \<and>
      expectStored (c, Listed (x # l)) = [] \<and>
      expectStored (c, Got None) = [Error_msg ''expected to find stored config''] \<and>
      expectStored (c, Got (Some x)) = []"
    by (simp add: expectStored_def)
qed

theorem CheckIstioConfigTypes_ingestion_witness:
  "(3::nat) < 5 \<and>
   (\<exists>s' evs.
      CheckIstioConfigTypes clusterCollections (traced (memStore (schemasOf clusterCollections)))
        ''ns1'' ([], []) = ((s', evs), subtestReports (cases clusterCollections) evs) \<and>
      length evs = 15 \<and>
      snd (subtestReports (cases clusterCollections) evs ! 3) =
        judge [expectStored, expectStored, expectStored] (take 3 (drop (3 * 3) evs))) \<and>
   snd (CheckIstioConfigTypes clusterCollections (memStore (schemasOf clusterCollections))
          ''ns1'' []) =
     [(''VirtualService'', []), (''DestinationRule'', []), (''ServiceEntry'', []),
      (''Gateway'', [Error_msg ''expected non-zero number of configs'']),
      (''AuthorizationPolicy'', [])]"
proof -
  have h: "(3::nat) < 5" by simp
  from CheckIstioConfigTypes_ingestion [of clusterCollections
      "memStore (schemasOf clusterCollections)" "''ns1''" "[]", THEN conjunct1]
  obtain s' evs where
    a: "CheckIstioConfigTypes clusterCollections (traced (memStore (schemasOf clusterCollections)))
        ''ns1'' ([], []) = ((s', evs), subtestReports (cases clusterCollections) evs)"
    and c: "map fst evs =
        concat (map (\<lambda>(schema, spec).
            [Create_call
               \<lparr>GroupVersionKind = schemaGvk schema, Name = ''example'',
                Namespace = (if IsClusterScoped schema then [] else ''ns1''), Labels = None,
                Annotations = None, ResourceVersion = [], CreationTimestamp = zeroTime,
                Spec = spec\<rparr>,
             List_call (schemaGvk schema) ''ns1'',
             Get_call (schemaGvk schema) ''example'' ''ns1''])
          [(VirtualService clusterCollections, ExampleVirtualService),
           (DestinationRule clusterCollections, ExampleDestinationRule),
           (ServiceEntry clusterCollections, ExampleServiceEntry),
           (Gateway clusterCollections, ExampleGateway),
           (AuthorizationPolicy clusterCollections, ExampleAuthorizationPolicy)])"
    and e: "\<forall>k < 5. snd (subtestReports (cases clusterCollections) evs ! k) =
         judge [expectStored, expectStored, expectStored] (take 3 (drop (3 * k) evs))"
    by (elim conjE exE)
  from c have "length (map fst evs) = 15"
    by simp
  then have l: "length evs = 15"
    by simp
  from e h have k: "snd (subtestReports (cases clusterCollections) evs ! 3) =
        judge [expectStored, expectStored, expectStored] (take 3 (drop (3 * 3) evs))"
    by (elim allE [of _ 3] impE)
  have run: "\<exists>s' evs.
      CheckIstioConfigTypes clusterCollections (traced (memStore (schemasOf clusterCollections)))
        ''ns1'' ([], []) = ((s', evs), subtestReports (cases clusterCollections) evs) \<and>
      length evs = 15 \<and>
      snd (subtestReports (cases clusterCollections) evs ! 3) =
        judge [expectStored, expectStored, expectStored] (take 3 (drop (3 * 3) evs))"
    using a l k by (intro exI [of _ s'] exI [of _ evs] conjI)
  have v: "snd (CheckIstioConfigTypes clusterCollections (memStore (schemasOf clusterCollections))
          ''ns1'' []) =
     [(''VirtualService'', []), (''DestinationRule'', []), (''ServiceEntry'', []),
      (''Gateway'', [Error_msg ''expected non-zero number of configs'']),
      (''AuthorizationPolicy'', [])]"
    by (simp add: CheckIstioConfigTypes_def cases_def Let_def subtest_def Meta.defs Config.defs
        sample_defs zeroTime_def)
  from h run v show ?thesis
    by (intro conjI)
qed

text \<open>
  C6 is what the harness is meant to do and does not do. Against the sample store,
  which stamps the version \<open>v1\<close> on what it accepts, the read-back of the one fixture
  records \<open>v1\<close> in the map \<^verbatim>\<open>revs\<close>; the map is dropped when \<open>verifyConfigsInStore\<close>
  returns, \<open>getFirstRevision\<close> reads the version of the fixture itself, which is empty,
  and the resource named \<open>invalid\<close> is submitted with the empty version, not with \<open>v1\<close>.
\<close>

theorem observed_versions_not_kept:
  "createConfigsInStore (memStore (schemasOf sampleCollections))
     (createConfigs sampleCollections ''ns1'' 1) [0] ([], []) =
     ([(Make sampleCollections ''ns1'' 0)\<lparr>ResourceVersion := ''v1''\<rparr>], []) \<and>
   snd (verifyConfigsInStore_loop sampleCollections (memStore (schemasOf sampleCollections))
      (range_entries (createConfigs sampleCollections ''ns1'' 1) [0])
      (([(Make sampleCollections ''ns1'' 0)\<lparr>ResourceVersion := ''v1''\<rparr>], []), Map.empty)) 0 =
     Some ''v1'' \<and>
   getFirstRevision (createConfigs sampleCollections ''ns1'' 1) [0] = [] \<and>
   Create_call (invalid sampleCollections ''v1'') \<notin>
     set (map fst (trace
       (CheckMapInvariant sampleCollections (traced (memStore (schemasOf sampleCollections)))
          ''ns1'' 1
          \<lparr>createOrder = [0], verifyOrder = [0], invalidOrder = [0], missingOrder = [0]\<rparr>
          (([], []), [])))) \<and>
   Create_call (invalid sampleCollections []) \<in>
     set (map fst (trace
       (CheckMapInvariant sampleCollections (traced (memStore (schemasOf sampleCollections)))
          ''ns1'' 1
          \<lparr>createOrder = [0], verifyOrder = [0], invalidOrder = [0], missingOrder = [0]\<rparr>
          (([], []), []))))"
proof -
  let ?ord = "\<lparr>createOrder = [0], verifyOrder = [0], invalidOrder = [0], missingOrder = [0]\<rparr>"
  have e1: "createConfigsInStore (memStore (schemasOf sampleCollections))
     (createConfigs sampleCollections ''ns1'' 1) [0] ([], []) =
     ([(Make sampleCollections ''ns1'' 0)\<lparr>ResourceVersion := ''v1''\<rparr>], [])"
    by (simp add: harness_defs sample_defs)
  have e2: "snd (verifyConfigsInStore_loop sampleCollections
      (memStore (schemasOf sampleCollections))
      (range_entries (createConfigs sampleCollections ''ns1'' 1) [0])
      (([(Make sampleCollections ''ns1'' 0)\<lparr>ResourceVersion := ''v1''\<rparr>], []), Map.empty)) 0 =
     Some ''v1''"
    by (simp add: harness_defs sample_defs)
  have e3: "getFirstRevision (createConfigs sampleCollections ''ns1'' 1) [0] = []"
    by (rule getFirstRevision_createConfigs)
  have h2: "range_order (createConfigs sampleCollections ''ns1'' 1) (createOrder ?ord)"
    using range_order_1 by simp
  have h3: "range_order (createConfigs sampleCollections ''ns1'' 1) (verifyOrder ?ord)"
    using range_order_1 by simp
  from CheckMapInvariant_run [OF sample_schema h2 h3, of "[]" "[]" "[]"] obtain s' evs where
    a: "CheckMapInvariant sampleCollections (traced (memStore (schemasOf sampleCollections)))
        ''ns1'' 1 ?ord (([], []), []) =
       Done ((s', [] @ evs),
         [] @ judge (map snd (crudScript sampleCollections ''ns1'' 1 ?ord)) evs)"
    and c: "map fst evs = map fst (crudScript sampleCollections ''ns1'' 1 ?ord)"
    by blast
  from a have t: "map fst (trace
       (CheckMapInvariant sampleCollections (traced (memStore (schemasOf sampleCollections)))
          ''ns1'' 1 ?ord (([], []), []))) =
       map fst (crudScript sampleCollections ''ns1'' 1 ?ord)"
    by (simp add: trace_def c)
  have e4: "Create_call (invalid sampleCollections ''v1'') \<notin>
     set (map fst (trace
       (CheckMapInvariant sampleCollections (traced (memStore (schemasOf sampleCollections)))
          ''ns1'' 1 ?ord (([], []), []))))"
    unfolding t
    by (simp add: crudScript_def createScript_def verifyScript_def negativeScript_def
        deleteScript_def invalid_def missing_def zeroConfig_def Make_def Let_def)
  have e5: "Create_call (invalid sampleCollections []) \<in>
     set (map fst (trace
       (CheckMapInvariant sampleCollections (traced (memStore (schemasOf sampleCollections)))
          ''ns1'' 1 ?ord (([], []), []))))"
    unfolding t
    by (simp add: crudScript_def createScript_def verifyScript_def negativeScript_def
        deleteScript_def)
  from e1 e2 e3 e4 e5 show ?thesis
    by (intro conjI)
qed

end
